theory Spec2Isabelle
  imports Main "HOL-Library.Sublist"
begin

section \<open>The values the chat client handles\<close>

text \<open>
  The frontend (\<^verbatim>\<open>src/frontend/src/api/api.js\<close>) receives the backend's reply through
  \<^verbatim>\<open>response.json()\<close>, so every payload is a JSON value; reading a property that is
  not there gives \<^verbatim>\<open>undefined\<close>.

  \<^item> A string is the list of the bytes of its UTF-8 encoding.
  \<^item> A number is represented by the text that JavaScript's number-to-string conversion
    gives for it (\<^verbatim>\<open>9.99\<close> is \<open>JNum ''9.99''\<close>, both zeros are \<open>JNum ''0''\<close>).
    The program only interpolates numbers into text, tests them for truthiness and
    compares a length with zero, and each of these is a function of that text.
  \<^item> An object is the list of its own properties; a lookup takes the first binding of
    a key. \<^verbatim>\<open>JSON.parse\<close> builds plain objects and arrays, so none holds a function.
\<close>

datatype jsval =
    JUndefined
  | JNull
  | JBool bool
  | JNum string
  | JStr string
  | JArr "jsval list"
  | JObj "(string \<times> jsval) list"

text \<open>
  What evaluating an expression can do: return a value or throw. The message of a
  \<^verbatim>\<open>TypeError\<close> raised by the language itself is chosen by the JavaScript engine, so
  such an error records why it was raised instead; an error object built with a
  message (\<^verbatim>\<open>new Error(...)\<close>, or what \<^verbatim>\<open>fetch\<close> and \<^verbatim>\<open>response.json()\<close> reject
  with) carries that message.
\<close>

datatype type_error =
    ReadOfNullish string
  | NotAFunction string
  | NoPrimitiveValue

datatype js_error =
    TypeError type_error
  | ErrorObject string

datatype 'a outcome =
    Returns 'a
  | Throws js_error

fun and_then :: "'a outcome \<Rightarrow> ('a \<Rightarrow> 'b outcome) \<Rightarrow> 'b outcome" where
  "and_then (Returns x) f = f x"
| "and_then (Throws e) f = Throws e"

text \<open>
  Two things are decided by the JavaScript engine and are taken as parameters: the
  wording of the message of a \<^verbatim>\<open>TypeError\<close> it raises itself, and the conversion of
  a string to a number, which works on floating-point numbers. The program uses that
  conversion in one place only, the comparison \<^verbatim>\<open>x.length > 0\<close> when the length is not
  a number, so the engine is asked whether the number a string converts to is greater
  than 0. Every theorem holds for every engine.
\<close>

record js_engine =
  type_error_text :: "type_error \<Rightarrow> string"
  positive_number :: "string \<Rightarrow> bool"

subsection \<open>Numbers and lengths as text\<close>

definition digit :: "nat \<Rightarrow> char" where
  "digit d = ''0123456789'' ! d"

fun show_nat :: "nat \<Rightarrow> string" where
  "show_nat n = (if n < 10 then [digit n] else show_nat (n div 10) @ [digit (n mod 10)])"

declare show_nat.simps [simp del]

text \<open>
  The \<^verbatim>\<open>length\<close> of a JavaScript string counts UTF-16 code units: one for each
  character of up to three UTF-8 bytes, two for each character of four bytes.
\<close>

definition utf16_length :: "string \<Rightarrow> nat" where
  "utf16_length s =
     length (filter (\<lambda>c. (of_char c :: nat) < 128 \<or> 192 \<le> (of_char c :: nat)) s)
     + length (filter (\<lambda>c. 240 \<le> (of_char c :: nat)) s)"

subsection \<open>The operations of the language the program uses\<close>

text \<open>Truthiness, as tested by \<^verbatim>\<open>if (x)\<close>, \<^verbatim>\<open>!x\<close>, \<^verbatim>\<open>x || y\<close>, \<^verbatim>\<open>x && y\<close> and \<^verbatim>\<open>x ? a : b\<close>.\<close>

fun truthy :: "jsval \<Rightarrow> bool" where
  "truthy JUndefined = False"
| "truthy JNull = False"
| "truthy (JBool b) = b"
| "truthy (JNum n) = (n \<noteq> ''0'' \<and> n \<noteq> ''NaN'')"
| "truthy (JStr s) = (s \<noteq> [])"
| "truthy (JArr xs) = True"
| "truthy (JObj kvs) = True"

text \<open>
  The property read \<^verbatim>\<open>v.p\<close>, for the property names the program reads: no
  prototype has any of them, and only arrays and strings have a \<^verbatim>\<open>length\<close> of their
  own. Reading a property of \<^verbatim>\<open>undefined\<close> or \<^verbatim>\<open>null\<close> throws.
\<close>

fun get :: "jsval \<Rightarrow> string \<Rightarrow> jsval outcome" where
  "get JUndefined p = Throws (TypeError (ReadOfNullish p))"
| "get JNull p = Throws (TypeError (ReadOfNullish p))"
| "get (JObj kvs) p = Returns (case map_of kvs p of None \<Rightarrow> JUndefined | Some v \<Rightarrow> v)"
| "get (JArr xs) p = Returns (if p = ''length'' then JNum (show_nat (length xs)) else JUndefined)"
| "get (JStr s) p = Returns (if p = ''length'' then JNum (show_nat (utf16_length s)) else JUndefined)"
| "get (JBool b) p = Returns JUndefined"
| "get (JNum n) p = Returns JUndefined"

text \<open>The optional chain \<^verbatim>\<open>v?.p\<close>.\<close>

definition get_optional :: "jsval \<Rightarrow> string \<Rightarrow> jsval outcome" where
  "get_optional v p = (if v = JUndefined \<or> v = JNull then Returns JUndefined else get v p)"

text \<open>
  Conversion to a string, as a template literal \<^verbatim>\<open>${v}\<close> and \<^verbatim>\<open>v + "..."\<close> do it. An
  array is joined with commas, \<^verbatim>\<open>null\<close> and \<^verbatim>\<open>undefined\<close> elements giving the empty
  text. A plain object gives \<^verbatim>\<open>[object Object]\<close>, unless it has an own property
  \<^verbatim>\<open>toString\<close>: that one is not a function, and the conversion throws.
\<close>

fun to_string :: "jsval \<Rightarrow> string outcome"
  and join_elements :: "string \<Rightarrow> jsval list \<Rightarrow> string outcome" where
  "to_string JUndefined = Returns ''undefined''"
| "to_string JNull = Returns ''null''"
| "to_string (JBool b) = Returns (if b then ''true'' else ''false'')"
| "to_string (JNum n) = Returns n"
| "to_string (JStr s) = Returns s"
| "to_string (JArr xs) = join_elements '','' xs"
| "to_string (JObj kvs) =
     (if map_of kvs ''toString'' = None then Returns ''[object Object]''
      else Throws (TypeError NoPrimitiveValue))"
| "join_elements sep [] = Returns []"
| "join_elements sep (x # xs) =
     and_then (if x = JUndefined \<or> x = JNull then Returns [] else to_string x) (\<lambda>s.
       if xs = [] then Returns s
       else and_then (join_elements sep xs) (\<lambda>rest. Returns (s @ sep @ rest)))"

text \<open>
  The comparison \<^verbatim>\<open>v > 0\<close>: \<^verbatim>\<open>undefined\<close> converts to NaN, \<^verbatim>\<open>null\<close> to 0, a boolean
  to 0 or 1; a string is converted by the engine; an array or an object is converted to
  a string first, and that string by the engine.
\<close>

fun gt_zero :: "js_engine \<Rightarrow> jsval \<Rightarrow> bool outcome" where
  "gt_zero engine JUndefined = Returns False"
| "gt_zero engine JNull = Returns False"
| "gt_zero engine (JBool b) = Returns b"
| "gt_zero engine (JNum n) = Returns (n \<noteq> ''0'' \<and> n \<noteq> ''NaN'' \<and> take 1 n \<noteq> ''-'')"
| "gt_zero engine (JStr s) = Returns (positive_number engine s)"
| "gt_zero engine (JArr xs) =
     and_then (to_string (JArr xs)) (\<lambda>s. Returns (positive_number engine s))"
| "gt_zero engine (JObj kvs) =
     and_then (to_string (JObj kvs)) (\<lambda>s. Returns (positive_number engine s))"

text \<open>The guard \<^verbatim>\<open>v && v.length > 0\<close> of every optional list.\<close>

definition present_nonempty :: "js_engine \<Rightarrow> jsval \<Rightarrow> bool outcome" where
  "present_nonempty engine v =
     (if \<not> truthy v then Returns False else and_then (get v ''length'') (gt_zero engine))"

text \<open>The method call \<^verbatim>\<open>v.join(sep)\<close>; only an array has the method.\<close>

fun join :: "jsval \<Rightarrow> string \<Rightarrow> string outcome" where
  "join (JArr xs) sep = join_elements sep xs"
| "join JUndefined sep = Throws (TypeError (ReadOfNullish ''join''))"
| "join JNull sep = Throws (TypeError (ReadOfNullish ''join''))"
| "join v sep = Throws (TypeError (NotAFunction ''join''))"

text \<open>
  The method call \<^verbatim>\<open>v.forEach(callback)\<close>. Every callback of the program appends to
  the variable \<^verbatim>\<open>formatted\<close> of the enclosing function, so the callback takes the text
  built so far, the element and its index, and returns the new text.
\<close>

fun forEach_from :: "nat \<Rightarrow> jsval list \<Rightarrow> (string \<Rightarrow> jsval \<Rightarrow> nat \<Rightarrow> string outcome)
    \<Rightarrow> string \<Rightarrow> string outcome" where
  "forEach_from i [] callback formatted = Returns formatted"
| "forEach_from i (x # xs) callback formatted =
     and_then (callback formatted x i) (forEach_from (Suc i) xs callback)"

fun forEach :: "jsval \<Rightarrow> (string \<Rightarrow> jsval \<Rightarrow> nat \<Rightarrow> string outcome)
    \<Rightarrow> string \<Rightarrow> string outcome" where
  "forEach (JArr xs) callback formatted = forEach_from 0 xs callback formatted"
| "forEach JUndefined callback formatted = Throws (TypeError (ReadOfNullish ''forEach''))"
| "forEach JNull callback formatted = Throws (TypeError (ReadOfNullish ''forEach''))"
| "forEach v callback formatted = Throws (TypeError (NotAFunction ''forEach''))"

text \<open>The interpolation \<^verbatim>\<open>${v.p}\<close>.\<close>

definition interpolate :: "jsval \<Rightarrow> string \<Rightarrow> string outcome" where
  "interpolate v p = and_then (get v p) to_string"

section \<open>The response normalizer\<close>

text \<open>
  The functions of \<^verbatim>\<open>api.js\<close> that turn the parsed reply into a chat message. The
  texts the source writes with characters outside ASCII are given by their UTF-8 bytes.
\<close>

record chat_message =
  role :: string
  content :: jsval

definition stopwatch :: string where
  "stopwatch = [CHR 0xE2, CHR 0x8F, CHR 0xB1, CHR 0xEF, CHR 0xB8, CHR 0x8F]"

definition bar_chart :: string where
  "bar_chart = [CHR 0xF0, CHR 0x9F, CHR 0x93, CHR 0x8A]"

definition wrench :: string where
  "wrench = [CHR 0xF0, CHR 0x9F, CHR 0x94, CHR 0xA7]"

definition light_bulb :: string where
  "light_bulb = [CHR 0xF0, CHR 0x9F, CHR 0x92, CHR 0xA1]"

definition warning_sign :: string where
  "warning_sign = [CHR 0xE2, CHR 0x9A, CHR 0xA0, CHR 0xEF, CHR 0xB8, CHR 0x8F]"

definition hammer_and_wrench :: string where
  "hammer_and_wrench = [CHR 0xF0, CHR 0x9F, CHR 0x9B, CHR 0xA0, CHR 0xEF, CHR 0xB8, CHR 0x8F]"

text \<open>The guard \<^verbatim>\<open>!data || !data.items || data.items.length === 0\<close>.\<close>

definition missing_or_empty :: "jsval \<Rightarrow> string \<Rightarrow> bool outcome" where
  "missing_or_empty data items =
     (if \<not> truthy data then Returns True
      else and_then (get data items) (\<lambda>list.
        if \<not> truthy list then Returns True
        else and_then (get list ''length'') (\<lambda>n. Returns (n = JNum ''0''))))"

text \<open>The guard \<^verbatim>\<open>data && data.items && data.items.length > 0\<close>.\<close>

definition has_items :: "js_engine \<Rightarrow> jsval \<Rightarrow> string \<Rightarrow> bool outcome" where
  "has_items engine data items =
     (if \<not> truthy data then Returns False
      else and_then (get data items) (present_nonempty engine))"

subsection \<open>formatProductResults\<close>

text \<open>The block \<^verbatim>\<open>if (product.compatibility && product.compatibility.length > 0) {...}\<close>.\<close>

definition append_compatibility :: "js_engine \<Rightarrow> string \<Rightarrow> jsval \<Rightarrow> string outcome" where
  "append_compatibility engine formatted product =
     and_then (get product ''compatibility'') (\<lambda>compatibility.
     and_then (present_nonempty engine compatibility) (\<lambda>shown.
       if shown then
         and_then (join compatibility '', '') (\<lambda>joined.
           Returns (formatted @ ''   Compatible with: '' @ joined @ ''\<newline>''))
       else Returns formatted))"

definition product_callback :: "js_engine \<Rightarrow> string \<Rightarrow> jsval \<Rightarrow> nat \<Rightarrow> string outcome" where
  "product_callback engine formatted product index =
     and_then (interpolate product ''name'') (\<lambda>name.
     and_then (interpolate product ''id'') (\<lambda>id.
     and_then (interpolate product ''price'') (\<lambda>price.
     and_then (interpolate product ''description'') (\<lambda>description.
     and_then (append_compatibility engine
         (formatted
            @ ''**'' @ show_nat (index + 1) @ ''. '' @ name @ ''**\<newline>''
            @ ''   ID: '' @ id @ ''\<newline>''
            @ ''   Price: $'' @ price @ ''\<newline>''
            @ ''   Description: '' @ description @ ''\<newline>'')
         product) (\<lambda>formatted.
     and_then (get product ''inStock'') (\<lambda>inStock.
       Returns (formatted @ ''   In Stock: '' @ (if truthy inStock then ''Yes'' else ''No'')
                  @ ''\<newline>\<newline>'')))))))"

definition formatProductResults :: "js_engine \<Rightarrow> jsval \<Rightarrow> jsval outcome" where
  "formatProductResults engine response =
     and_then (get response ''content'') (\<lambda>content.
     and_then (get response ''data'') (\<lambda>data.
     and_then (missing_or_empty data ''products'') (\<lambda>nothing.
       if nothing then Returns (if truthy content then content else JStr ''No products found'')
       else
         and_then (to_string content) (\<lambda>text.
         and_then (get data ''products'') (\<lambda>products.
         and_then (forEach products (product_callback engine) (text @ ''\<newline>\<newline>''))
           (\<lambda>formatted. Returns (JStr formatted)))))))"

subsection \<open>formatInstallationGuide\<close>

definition bullet_callback :: "string \<Rightarrow> jsval \<Rightarrow> nat \<Rightarrow> string outcome" where
  "bullet_callback formatted item index =
     and_then (to_string item) (\<lambda>text.
       Returns (formatted @ ''      - '' @ text @ ''\<newline>''))"

definition append_tools :: "js_engine \<Rightarrow> string \<Rightarrow> jsval \<Rightarrow> string outcome" where
  "append_tools engine formatted step =
     and_then (get step ''tools'') (\<lambda>tools.
     and_then (present_nonempty engine tools) (\<lambda>shown.
       if shown then
         and_then (join tools '', '') (\<lambda>joined.
           Returns (formatted @ ''   '' @ wrench @ '' Tools needed: '' @ joined @ ''\<newline>''))
       else Returns formatted))"

definition append_tips :: "js_engine \<Rightarrow> string \<Rightarrow> jsval \<Rightarrow> string outcome" where
  "append_tips engine formatted step =
     and_then (get step ''tips'') (\<lambda>tips.
     and_then (present_nonempty engine tips) (\<lambda>shown.
       if shown then
         forEach tips bullet_callback (formatted @ ''   '' @ light_bulb @ '' Tips:\<newline>'')
       else Returns formatted))"

definition append_warnings :: "js_engine \<Rightarrow> string \<Rightarrow> jsval \<Rightarrow> string outcome" where
  "append_warnings engine formatted step =
     and_then (get step ''warnings'') (\<lambda>warnings.
     and_then (present_nonempty engine warnings) (\<lambda>shown.
       if shown then
         forEach warnings bullet_callback
           (formatted @ ''   '' @ warning_sign @ '' Warnings:\<newline>'')
       else Returns formatted))"

definition step_callback :: "js_engine \<Rightarrow> string \<Rightarrow> jsval \<Rightarrow> nat \<Rightarrow> string outcome" where
  "step_callback engine formatted step index =
     and_then (interpolate step ''step'') (\<lambda>number.
     and_then (interpolate step ''instruction'') (\<lambda>instruction.
     and_then (append_tools engine
         (formatted @ ''**Step '' @ number @ '': '' @ instruction @ ''**\<newline>'') step)
       (\<lambda>formatted.
     and_then (append_tips engine formatted step) (\<lambda>formatted.
     and_then (append_warnings engine formatted step) (\<lambda>formatted.
       Returns (formatted @ ''\<newline>''))))))"

definition formatInstallationGuide :: "js_engine \<Rightarrow> jsval \<Rightarrow> jsval outcome" where
  "formatInstallationGuide engine response =
     and_then (get response ''content'') (\<lambda>content.
     and_then (get response ''data'') (\<lambda>data.
     and_then (missing_or_empty data ''steps'') (\<lambda>nothing.
       if nothing then
         Returns (if truthy content then content else JStr ''No installation steps available'')
       else
         and_then (to_string content) (\<lambda>text.
         and_then (interpolate data ''estimatedTime'') (\<lambda>estimatedTime.
         and_then (interpolate data ''difficulty'') (\<lambda>difficulty.
         and_then (get data ''steps'') (\<lambda>steps.
         and_then (forEach steps (step_callback engine)
             (text @ ''\<newline>\<newline>''
                @ stopwatch @ '' Estimated Time: '' @ estimatedTime @ '' minutes\<newline>''
                @ bar_chart @ '' Difficulty: '' @ difficulty @ ''\<newline>\<newline>''))
           (\<lambda>formatted. Returns (JStr formatted)))))))))"

subsection \<open>formatTroubleshooting\<close>

definition cause_callback :: "string \<Rightarrow> jsval \<Rightarrow> nat \<Rightarrow> string outcome" where
  "cause_callback formatted cause index =
     and_then (interpolate cause ''cause'') (\<lambda>name.
     and_then (interpolate cause ''probability'') (\<lambda>probability.
     and_then (interpolate cause ''description'') (\<lambda>description.
     and_then (interpolate cause ''fix'') (\<lambda>fix.
       Returns (formatted
          @ show_nat (index + 1) @ ''. **'' @ name @ ''** ('' @ probability
          @ '' probability)\<newline>''
          @ ''   Description: '' @ description @ ''\<newline>''
          @ ''   Fix: '' @ fix @ ''\<newline>\<newline>'')))))"

definition solution_step_callback :: "string \<Rightarrow> jsval \<Rightarrow> nat \<Rightarrow> string outcome" where
  "solution_step_callback formatted step stepIndex =
     and_then (to_string step) (\<lambda>text.
       Returns (formatted @ ''   '' @ show_nat (stepIndex + 1) @ ''. '' @ text @ ''\<newline>''))"

definition append_solution_steps :: "js_engine \<Rightarrow> string \<Rightarrow> jsval \<Rightarrow> string outcome" where
  "append_solution_steps engine formatted solution =
     and_then (get solution ''steps'') (\<lambda>steps.
     and_then (present_nonempty engine steps) (\<lambda>shown.
       if shown then forEach steps solution_step_callback formatted
       else Returns formatted))"

definition append_recommendedParts :: "js_engine \<Rightarrow> string \<Rightarrow> jsval \<Rightarrow> string outcome" where
  "append_recommendedParts engine formatted solution =
     and_then (get solution ''recommendedParts'') (\<lambda>recommendedParts.
     and_then (present_nonempty engine recommendedParts) (\<lambda>shown.
       if shown then
         and_then (join recommendedParts '', '') (\<lambda>joined.
           Returns (formatted @ ''   '' @ hammer_and_wrench @ '' Recommended Parts: '' @ joined
                      @ ''\<newline>''))
       else Returns formatted))"

definition solution_callback :: "js_engine \<Rightarrow> string \<Rightarrow> jsval \<Rightarrow> nat \<Rightarrow> string outcome" where
  "solution_callback engine formatted solution index =
     and_then (interpolate solution ''title'') (\<lambda>title.
     and_then (append_solution_steps engine
         (formatted @ ''**Solution '' @ show_nat (index + 1) @ '': '' @ title @ ''**\<newline>'')
         solution) (\<lambda>formatted.
     and_then (interpolate solution ''estimatedTime'') (\<lambda>estimatedTime.
     and_then (append_recommendedParts engine
         (formatted @ ''   '' @ stopwatch @ '' Estimated Time: '' @ estimatedTime
            @ '' minutes\<newline>'')
         solution) (\<lambda>formatted.
       Returns (formatted @ ''\<newline>'')))))"

definition append_possibleCauses :: "js_engine \<Rightarrow> string \<Rightarrow> jsval \<Rightarrow> string outcome" where
  "append_possibleCauses engine formatted data =
     and_then (has_items engine data ''possibleCauses'') (\<lambda>shown.
       if shown then
         and_then (get data ''possibleCauses'') (\<lambda>possibleCauses.
           forEach possibleCauses cause_callback
             (formatted @ ''**Possible Causes:**\<newline>\<newline>''))
       else Returns formatted)"

definition append_suggestedSolutions :: "js_engine \<Rightarrow> string \<Rightarrow> jsval \<Rightarrow> string outcome" where
  "append_suggestedSolutions engine formatted data =
     and_then (has_items engine data ''suggestedSolutions'') (\<lambda>shown.
       if shown then
         and_then (get data ''suggestedSolutions'') (\<lambda>suggestedSolutions.
           forEach suggestedSolutions (solution_callback engine)
             (formatted @ ''**Suggested Solutions:**\<newline>\<newline>''))
       else Returns formatted)"

definition formatTroubleshooting :: "js_engine \<Rightarrow> jsval \<Rightarrow> jsval outcome" where
  "formatTroubleshooting engine response =
     and_then (get response ''content'') (\<lambda>content.
     and_then (get response ''data'') (\<lambda>data.
     and_then (to_string content) (\<lambda>text.
     and_then (append_possibleCauses engine (text @ ''\<newline>\<newline>'') data) (\<lambda>formatted.
     and_then (append_suggestedSolutions engine formatted data) (\<lambda>formatted.
       Returns (JStr formatted))))))"

subsection \<open>formatBackendResponse\<close>

text \<open>
  The \<^verbatim>\<open>switch\<close> compares \<^verbatim>\<open>response.type\<close> with each tag by strict equality, so
  only the string itself selects a case.
\<close>

definition format_by_type :: "js_engine \<Rightarrow> jsval \<Rightarrow> jsval \<Rightarrow> jsval outcome" where
  "format_by_type engine type response =
     (if type = JStr ''text'' then get response ''content''
      else if type = JStr ''product_results'' then formatProductResults engine response
      else if type = JStr ''installation_guide'' then formatInstallationGuide engine response
      else if type = JStr ''troubleshooting'' then formatTroubleshooting engine response
      else if type = JStr ''out_of_scope'' then get response ''content''
      else if type = JStr ''error'' then
        and_then (interpolate response ''content'') (\<lambda>text. Returns (JStr (''Error: '' @ text)))
      else get response ''content'')"

definition formatBackendResponse :: "js_engine \<Rightarrow> jsval \<Rightarrow> chat_message outcome" where
  "formatBackendResponse engine data =
     and_then (get data ''success'') (\<lambda>success.
       if \<not> truthy success then
         and_then (get data ''error'') (\<lambda>error.
         and_then (get_optional error ''message'') (\<lambda>message.
           Returns \<lparr>role = ''assistant'',
                    content = (if truthy message then message else JStr ''An error occurred'')\<rparr>))
       else
         and_then (get data ''response'') (\<lambda>response.
         and_then (get response ''type'') (\<lambda>type.
         and_then (format_by_type engine type response) (\<lambda>content.
           Returns \<lparr>role = ''assistant'', content = content\<rparr>))))"

section \<open>The session client\<close>

text \<open>
  The module variable \<^verbatim>\<open>currentSessionId\<close> is the whole state of the client; it starts
  as \<^verbatim>\<open>null\<close>. One call of \<^verbatim>\<open>getAIMessage\<close> sends one request and is answered by the
  network in one of three ways: \<^verbatim>\<open>fetch\<close> rejects, or it resolves to a response whose
  body \<^verbatim>\<open>response.json()\<close> either rejects or parses. The calls of \<^verbatim>\<open>console.log\<close>
  change nothing and are left out.
\<close>

record module_state =
  currentSessionId :: jsval

record request =
  message :: string
  sessionId :: jsval

record http_response =
  ok :: bool
  status :: nat
  json :: "js_error + jsval"

record turn =
  request_sent :: request
  reply :: "chat_message outcome"
  state_after :: module_state

definition initial_state :: module_state where
  "initial_state = \<lparr>currentSessionId = JNull\<rparr>"

text \<open>
  The text \<^verbatim>\<open>error.message\<close> of a caught error; the engine gives the wording of a
  \<^verbatim>\<open>TypeError\<close> of its own.
\<close>

fun error_message :: "js_engine \<Rightarrow> js_error \<Rightarrow> string" where
  "error_message engine (TypeError t) = type_error_text engine t"
| "error_message engine (ErrorObject m) = m"

text \<open>Steps 2 to 6 of the \<^verbatim>\<open>try\<close> block: the outcome and the state it leaves.\<close>

definition try_block :: "js_engine \<Rightarrow> module_state \<Rightarrow> js_error + http_response
    \<Rightarrow> chat_message outcome \<times> module_state" where
  "try_block engine st fetched =
     (case fetched of
        Inl e \<Rightarrow> (Throws e, st)
      | Inr response \<Rightarrow>
          if \<not> ok response then
            (Throws (ErrorObject (''Backend error: '' @ show_nat (status response))), st)
          else
            (case json response of
               Inl e \<Rightarrow> (Throws e, st)
             | Inr data \<Rightarrow>
                 (case get data ''sessionId'' of
                    Throws e \<Rightarrow> (Throws e, st)
                  | Returns sid \<Rightarrow>
                      (formatBackendResponse engine data,
                       if truthy sid then st\<lparr>currentSessionId := sid\<rparr> else st))))"

definition getAIMessage :: "js_engine \<Rightarrow> module_state \<Rightarrow> string
    \<Rightarrow> js_error + http_response \<Rightarrow> turn" where
  "getAIMessage engine st userQuery fetched =
     (let payload = \<lparr>message = userQuery, sessionId = currentSessionId st\<rparr>;
          (result, st') = try_block engine st fetched
      in \<lparr>request_sent = payload,
          reply =
            (case result of
               Throws error \<Rightarrow>
                 Returns \<lparr>role = ''assistant'',
                   content = JStr (''Sorry, I encountered an error: '' @ error_message engine error
                     @ ''. Please make sure the backend is running on http://localhost:5000'')\<rparr>
             | Returns m \<Rightarrow> Returns m),
          state_after = st'\<rparr>)"

definition resetSession :: "module_state \<Rightarrow> module_state" where
  "resetSession st = st\<lparr>currentSessionId := JNull\<rparr>"

definition getCurrentSessionId :: "module_state \<Rightarrow> jsval" where
  "getCurrentSessionId st = currentSessionId st"

section \<open>Payload shapes and the listing the specification describes\<close>

text \<open>
  The definitions of this section are not code of the program: they name the payloads
  the theorems speak about, and spell out the texts as the specification words them. For
  a product listing: content, then one numbered block per product (name, id, price with a
  currency prefix, description, optional compatibility list joined by commas, stock
  yes/no).
\<close>

fun field :: "jsval \<Rightarrow> string \<Rightarrow> jsval" where
  "field (JObj kvs) p = (case map_of kvs p of None \<Rightarrow> JUndefined | Some v \<Rightarrow> v)"
| "field v p = JUndefined"

fun is_object :: "jsval \<Rightarrow> bool" where
  "is_object (JObj kvs) = True"
| "is_object v = False"

fun scalar :: "jsval \<Rightarrow> bool" where
  "scalar (JStr s) = True"
| "scalar (JNum n) = True"
| "scalar v = False"

fun text_of :: "jsval \<Rightarrow> string" where
  "text_of (JStr s) = s"
| "text_of (JNum n) = n"
| "text_of v = []"

fun comma_separated :: "string list \<Rightarrow> string" where
  "comma_separated [] = []"
| "comma_separated [s] = s"
| "comma_separated (s # t # ts) = s @ '', '' @ comma_separated (t # ts)"

subsection \<open>Well-formed product results\<close>

definition well_formed_product :: "jsval \<Rightarrow> bool" where
  "well_formed_product product \<longleftrightarrow>
     is_object product
     \<and> scalar (field product ''name'') \<and> scalar (field product ''id'')
     \<and> scalar (field product ''price'') \<and> scalar (field product ''description'')
     \<and> (case field product ''compatibility'' of
          JUndefined \<Rightarrow> True | JArr xs \<Rightarrow> list_all scalar xs | _ \<Rightarrow> False)"

definition well_formed_product_results :: "jsval \<Rightarrow> bool" where
  "well_formed_product_results payload \<longleftrightarrow>
     is_object payload \<and> truthy (field payload ''success'')
     \<and> is_object (field payload ''response'')
     \<and> field (field payload ''response'') ''type'' = JStr ''product_results''
     \<and> (case field (field payload ''response'') ''content'' of JStr s \<Rightarrow> True | _ \<Rightarrow> False)
     \<and> is_object (field (field payload ''response'') ''data'')
     \<and> (case field (field (field payload ''response'') ''data'') ''products'' of
          JArr products \<Rightarrow> products \<noteq> [] \<and> list_all well_formed_product products
        | _ \<Rightarrow> False)"

definition numbered_entry :: "nat \<Rightarrow> jsval \<Rightarrow> string" where
  "numbered_entry n product =
     ''**'' @ show_nat n @ ''. '' @ text_of (field product ''name'') @ ''**\<newline>''
     @ ''   ID: '' @ text_of (field product ''id'') @ ''\<newline>''
     @ ''   Price: $'' @ text_of (field product ''price'') @ ''\<newline>''
     @ ''   Description: '' @ text_of (field product ''description'') @ ''\<newline>''
     @ (case field product ''compatibility'' of
          JArr (x # xs) \<Rightarrow>
            ''   Compatible with: '' @ comma_separated (map text_of (x # xs)) @ ''\<newline>''
        | _ \<Rightarrow> [])
     @ ''   In Stock: '' @ (if truthy (field product ''inStock'') then ''Yes'' else ''No'')
     @ ''\<newline>\<newline>''"

definition product_listing :: "string \<Rightarrow> jsval list \<Rightarrow> string" where
  "product_listing text products =
     text @ ''\<newline>\<newline>''
     @ concat (map (\<lambda>(i, product). numbered_entry (Suc i) product) (enumerate 0 products))"

subsection \<open>The text of each variant\<close>

text \<open>
  A value is printable when its conversion to a string returns; \<open>printed\<close> is the
  text it gives (\<^verbatim>\<open>undefined\<close> for an absent field, as in JavaScript).
\<close>

definition printable :: "jsval \<Rightarrow> bool" where
  "printable v = (case to_string v of Returns s \<Rightarrow> True | Throws e \<Rightarrow> False)"

definition printed :: "jsval \<Rightarrow> string" where
  "printed v = (case to_string v of Returns s \<Rightarrow> s | Throws e \<Rightarrow> [])"

text \<open>The elements of a list joined by commas; a \<^verbatim>\<open>null\<close> element gives the empty text.\<close>

definition joined :: "jsval list \<Rightarrow> string" where
  "joined xs =
     comma_separated (map (\<lambda>x. if x = JUndefined \<or> x = JNull then [] else printed x) xs)"

text \<open>
  The section of an optional list: a line that joins its elements, a heading followed by
  one bullet per element, or one numbered line per element. Only an array that is not
  empty has a section; an absent list has none.
\<close>

definition joined_section :: "string \<Rightarrow> jsval \<Rightarrow> string" where
  "joined_section label list =
     (case list of JArr (x # xs) \<Rightarrow> label @ joined (x # xs) @ ''\<newline>'' | _ \<Rightarrow> [])"

definition bulleted_section :: "string \<Rightarrow> jsval \<Rightarrow> string" where
  "bulleted_section heading list =
     (case list of
        JArr (x # xs) \<Rightarrow>
          heading @ concat (map (\<lambda>item. ''      - '' @ printed item @ ''\<newline>'') (x # xs))
      | _ \<Rightarrow> [])"

definition numbered_lines :: "jsval \<Rightarrow> string" where
  "numbered_lines list =
     (case list of
        JArr (x # xs) \<Rightarrow>
          concat (map (\<lambda>(i, step). ''   '' @ show_nat (Suc i) @ ''. '' @ printed step @ ''\<newline>'')
            (enumerate 0 (x # xs)))
      | _ \<Rightarrow> [])"

text \<open>The block of one product, step, cause or solution; \<open>n\<close> is its number, from 1.\<close>

definition product_text :: "nat \<Rightarrow> jsval \<Rightarrow> string" where
  "product_text n product =
     ''**'' @ show_nat n @ ''. '' @ printed (field product ''name'') @ ''**\<newline>''
     @ ''   ID: '' @ printed (field product ''id'') @ ''\<newline>''
     @ ''   Price: $'' @ printed (field product ''price'') @ ''\<newline>''
     @ ''   Description: '' @ printed (field product ''description'') @ ''\<newline>''
     @ joined_section ''   Compatible with: '' (field product ''compatibility'')
     @ ''   In Stock: '' @ (if truthy (field product ''inStock'') then ''Yes'' else ''No'')
     @ ''\<newline>\<newline>''"

definition step_text :: "nat \<Rightarrow> jsval \<Rightarrow> string" where
  "step_text n step =
     ''**Step '' @ printed (field step ''step'') @ '': '' @ printed (field step ''instruction'')
     @ ''**\<newline>''
     @ joined_section (''   '' @ wrench @ '' Tools needed: '') (field step ''tools'')
     @ bulleted_section (''   '' @ light_bulb @ '' Tips:\<newline>'') (field step ''tips'')
     @ bulleted_section (''   '' @ warning_sign @ '' Warnings:\<newline>'') (field step ''warnings'')
     @ ''\<newline>''"

definition cause_text :: "nat \<Rightarrow> jsval \<Rightarrow> string" where
  "cause_text n cause =
     show_nat n @ ''. **'' @ printed (field cause ''cause'') @ ''** (''
     @ printed (field cause ''probability'') @ '' probability)\<newline>''
     @ ''   Description: '' @ printed (field cause ''description'') @ ''\<newline>''
     @ ''   Fix: '' @ printed (field cause ''fix'') @ ''\<newline>\<newline>''"

definition solution_text :: "nat \<Rightarrow> jsval \<Rightarrow> string" where
  "solution_text n solution =
     ''**Solution '' @ show_nat n @ '': '' @ printed (field solution ''title'') @ ''**\<newline>''
     @ numbered_lines (field solution ''steps'')
     @ ''   '' @ stopwatch @ '' Estimated Time: '' @ printed (field solution ''estimatedTime'')
     @ '' minutes\<newline>''
     @ joined_section (''   '' @ hammer_and_wrench @ '' Recommended Parts: '')
         (field solution ''recommendedParts'')
     @ ''\<newline>''"

definition entries_text :: "(nat \<Rightarrow> jsval \<Rightarrow> string) \<Rightarrow> jsval list \<Rightarrow> string" where
  "entries_text entry xs = concat (map (\<lambda>(i, x). entry (Suc i) x) (enumerate 0 xs))"

definition listed_section :: "string \<Rightarrow> (nat \<Rightarrow> jsval \<Rightarrow> string) \<Rightarrow> jsval \<Rightarrow> string" where
  "listed_section heading entry list =
     (case list of JArr (x # xs) \<Rightarrow> heading @ entries_text entry (x # xs) | _ \<Rightarrow> [])"

text \<open>The whole text of a product listing, an installation guide and a troubleshooting reply.\<close>

definition products_text :: "jsval \<Rightarrow> string" where
  "products_text response =
     printed (field response ''content'') @ ''\<newline>\<newline>''
     @ (case field (field response ''data'') ''products'' of
          JArr products \<Rightarrow> entries_text product_text products | _ \<Rightarrow> [])"

definition guide_text :: "jsval \<Rightarrow> string" where
  "guide_text response =
     printed (field response ''content'') @ ''\<newline>\<newline>''
     @ stopwatch @ '' Estimated Time: ''
     @ printed (field (field response ''data'') ''estimatedTime'') @ '' minutes\<newline>''
     @ bar_chart @ '' Difficulty: ''
     @ printed (field (field response ''data'') ''difficulty'') @ ''\<newline>\<newline>''
     @ (case field (field response ''data'') ''steps'' of
          JArr steps \<Rightarrow> entries_text step_text steps | _ \<Rightarrow> [])"

definition troubleshooting_text :: "jsval \<Rightarrow> string" where
  "troubleshooting_text response =
     printed (field response ''content'') @ ''\<newline>\<newline>''
     @ listed_section ''**Possible Causes:**\<newline>\<newline>'' cause_text
         (field (field response ''data'') ''possibleCauses'')
     @ listed_section ''**Suggested Solutions:**\<newline>\<newline>'' solution_text
         (field (field response ''data'') ''suggestedSolutions'')"

subsection \<open>Displayable payloads\<close>

text \<open>
  The payloads for which the normalizer returns a non-empty string. An optional list is
  in order when its guard \<^verbatim>\<open>x && x.length > 0\<close> is false (an absent list, for one) or
  when it is an array of printable values. An entry is in order when it is not \<^verbatim>\<open>null\<close>,
  the fields it prints are printable and its optional lists are in order.
\<close>

fun is_string :: "jsval \<Rightarrow> bool" where
  "is_string (JStr s) = True"
| "is_string v = False"

definition string_or_falsy :: "jsval \<Rightarrow> bool" where
  "string_or_falsy v \<longleftrightarrow> is_string v \<or> \<not> truthy v"

definition list_ok :: "js_engine \<Rightarrow> jsval \<Rightarrow> bool" where
  "list_ok engine list \<longleftrightarrow>
     present_nonempty engine list = Returns False
     \<or> (case list of JArr xs \<Rightarrow> list_all printable xs | _ \<Rightarrow> False)"

definition product_ok :: "js_engine \<Rightarrow> jsval \<Rightarrow> bool" where
  "product_ok engine product \<longleftrightarrow>
     product \<noteq> JUndefined \<and> product \<noteq> JNull
     \<and> printable (field product ''name'') \<and> printable (field product ''id'')
     \<and> printable (field product ''price'') \<and> printable (field product ''description'')
     \<and> list_ok engine (field product ''compatibility'')"

definition step_ok :: "js_engine \<Rightarrow> jsval \<Rightarrow> bool" where
  "step_ok engine step \<longleftrightarrow>
     step \<noteq> JUndefined \<and> step \<noteq> JNull
     \<and> printable (field step ''step'') \<and> printable (field step ''instruction'')
     \<and> list_ok engine (field step ''tools'')
     \<and> list_ok engine (field step ''tips'')
     \<and> list_ok engine (field step ''warnings'')"

definition cause_ok :: "jsval \<Rightarrow> bool" where
  "cause_ok cause \<longleftrightarrow>
     cause \<noteq> JUndefined \<and> cause \<noteq> JNull
     \<and> printable (field cause ''cause'') \<and> printable (field cause ''probability'')
     \<and> printable (field cause ''description'') \<and> printable (field cause ''fix'')"

definition solution_ok :: "js_engine \<Rightarrow> jsval \<Rightarrow> bool" where
  "solution_ok engine solution \<longleftrightarrow>
     solution \<noteq> JUndefined \<and> solution \<noteq> JNull
     \<and> printable (field solution ''title'')
     \<and> list_ok engine (field solution ''steps'')
     \<and> printable (field solution ''estimatedTime'')
     \<and> list_ok engine (field solution ''recommendedParts'')"

definition entries_ok :: "(jsval \<Rightarrow> bool) \<Rightarrow> jsval \<Rightarrow> bool" where
  "entries_ok good list = (case list of JArr xs \<Rightarrow> list_all good xs | _ \<Rightarrow> False)"

text \<open>
  The guard \<^verbatim>\<open>!data || !data.items || data.items.length === 0\<close> of a listing, and a
  section of a troubleshooting reply, whose guard is \<^verbatim>\<open>data && data.items &&
  data.items.length > 0\<close>.
\<close>

definition nothing_listed :: "jsval \<Rightarrow> string \<Rightarrow> bool" where
  "nothing_listed data items \<longleftrightarrow>
     \<not> truthy data \<or> \<not> truthy (field data items)
     \<or> get (field data items) ''length'' = Returns (JNum ''0'')"

definition section_ok :: "js_engine \<Rightarrow> (jsval \<Rightarrow> bool) \<Rightarrow> jsval \<Rightarrow> string \<Rightarrow> bool" where
  "section_ok engine good data items \<longleftrightarrow>
     has_items engine data items = Returns False \<or> entries_ok good (field data items)"

definition products_ok :: "js_engine \<Rightarrow> jsval \<Rightarrow> bool" where
  "products_ok engine response \<longleftrightarrow>
     (if nothing_listed (field response ''data'') ''products''
      then string_or_falsy (field response ''content'')
      else printable (field response ''content'')
        \<and> entries_ok (product_ok engine) (field (field response ''data'') ''products''))"

definition guide_ok :: "js_engine \<Rightarrow> jsval \<Rightarrow> bool" where
  "guide_ok engine response \<longleftrightarrow>
     (if nothing_listed (field response ''data'') ''steps''
      then string_or_falsy (field response ''content'')
      else printable (field response ''content'')
        \<and> printable (field (field response ''data'') ''estimatedTime'')
        \<and> printable (field (field response ''data'') ''difficulty'')
        \<and> entries_ok (step_ok engine) (field (field response ''data'') ''steps''))"

definition troubleshooting_ok :: "js_engine \<Rightarrow> jsval \<Rightarrow> bool" where
  "troubleshooting_ok engine response \<longleftrightarrow>
     printable (field response ''content'')
     \<and> section_ok engine cause_ok (field response ''data'') ''possibleCauses''
     \<and> section_ok engine (solution_ok engine) (field response ''data'') ''suggestedSolutions''"

definition displayable_response :: "js_engine \<Rightarrow> jsval \<Rightarrow> bool" where
  "displayable_response engine response \<longleftrightarrow>
     is_object response \<and>
     (if field response ''type'' = JStr ''product_results'' then products_ok engine response
      else if field response ''type'' = JStr ''installation_guide'' then guide_ok engine response
      else if field response ''type'' = JStr ''troubleshooting''
        then troubleshooting_ok engine response
      else if field response ''type'' = JStr ''error''
        then printable (field response ''content'')
      else is_string (field response ''content'') \<and> field response ''content'' \<noteq> JStr [])"

definition displayable_payload :: "js_engine \<Rightarrow> jsval \<Rightarrow> bool" where
  "displayable_payload engine payload \<longleftrightarrow>
     payload \<noteq> JUndefined \<and> payload \<noteq> JNull \<and>
     (if truthy (field payload ''success'') then displayable_response engine (field payload ''response'')
      else string_or_falsy (field (field payload ''error'') ''message''))"

subsection \<open>Example payloads\<close>

text \<open>
  An engine for the examples. None of them reaches the conversion of a string to a
  number; this engine answers it for strings of decimal digits.
\<close>

definition example_engine :: js_engine where
  "example_engine =
     \<lparr>type_error_text = (\<lambda>t. ''engine text''),
      positive_number = (\<lambda>s. s \<noteq> [] \<and> list_all (\<lambda>c. c \<in> set ''0123456789'') s
         \<and> \<not> list_all (\<lambda>c. c = CHR ''0'') s)\<rparr>"

text \<open>The product scenario of the specification, and the text it expects.\<close>

definition widget_payload :: jsval where
  "widget_payload =
     JObj [(''success'', JBool True),
       (''response'', JObj [(''type'', JStr ''product_results''),
          (''content'', JStr ''Found 1''),
          (''data'', JObj [(''products'', JArr
             [JObj [(''name'', JStr ''Widget''), (''id'', JStr ''W1''), (''price'', JNum ''9.99''),
                (''description'', JStr ''A widget''), (''inStock'', JBool True)]])])])]"

definition widget_listing :: string where
  "widget_listing =
     ''Found 1\<newline>\<newline>**1. Widget**\<newline>   ID: W1\<newline>   Price: $9.99\<newline>   Description: A widget\<newline>   In Stock: Yes\<newline>\<newline>''"

text \<open>
  An installation guide with two steps: the first has none of the optional lists, the
  second has tools and one warning.
\<close>

definition guide_payload :: jsval where
  "guide_payload =
     JObj [(''success'', JBool True),
       (''response'', JObj [(''type'', JStr ''installation_guide''),
          (''content'', JStr ''Guide''),
          (''data'', JObj
             [(''estimatedTime'', JNum ''30''), (''difficulty'', JStr ''easy''),
              (''steps'', JArr
                 [JObj [(''step'', JNum ''1''), (''instruction'', JStr ''Unplug'')],
                  JObj [(''step'', JNum ''2''), (''instruction'', JStr ''Swap the seal''),
                     (''tools'', JArr [JStr ''pliers'', JStr ''gloves'']),
                     (''warnings'', JArr [JStr ''Sharp edges''])]])])])]"

definition guide_listing :: string where
  "guide_listing =
     ''Guide\<newline>\<newline>'' @ stopwatch @ '' Estimated Time: 30 minutes\<newline>''
     @ bar_chart @ '' Difficulty: easy\<newline>\<newline>''
     @ ''**Step 1: Unplug**\<newline>\<newline>''
     @ ''**Step 2: Swap the seal**\<newline>''
     @ ''   '' @ wrench @ '' Tools needed: pliers, gloves\<newline>''
     @ ''   '' @ warning_sign @ '' Warnings:\<newline>''
     @ ''      - Sharp edges\<newline>''
     @ ''\<newline>''"


section \<open>Facts about the language operations\<close>

lemma get_non_nullish:
  "v \<noteq> JUndefined \<Longrightarrow> v \<noteq> JNull \<Longrightarrow> \<exists>x. get v p = Returns x"
  by (cases v) simp_all

lemma get_Returns_non_nullish:
  "get v p = Returns x \<Longrightarrow> v \<noteq> JUndefined \<and> v \<noteq> JNull"
  by (cases v) simp_all

lemma get_optional_total: "\<exists>x. get_optional v p = Returns x"
  by (cases v) (simp_all add: get_optional_def)

lemma digit_in: "d < 10 \<Longrightarrow> digit d \<in> set ''0123456789''"
  unfolding digit_def by (rule nth_mem) simp

lemma digit_zero_iff: "d < 10 \<Longrightarrow> digit d = CHR ''0'' \<longleftrightarrow> d = 0"
proof -
  assume "d < 10"
  then have "d \<in> {0, 1, 2, 3, 4, 5, 6, 7, 8, 9}" by auto
  then show ?thesis by (auto simp: digit_def)
qed

lemma show_nat_digits: "set (show_nat n) \<subseteq> set ''0123456789''"
proof (induction n rule: show_nat.induct)
  case (1 n)
  show ?case
  proof (cases "n < 10")
    case True
    then show ?thesis using digit_in [of n] by (subst show_nat.simps) simp
  next
    case False
    have "n mod 10 < 10" by simp
    then have "digit (n mod 10) \<in> set ''0123456789''" by (rule digit_in)
    with False 1 show ?thesis by (subst show_nat.simps) simp
  qed
qed

lemma show_nat_nonempty: "show_nat n \<noteq> []"
  by (subst show_nat.simps) simp

lemma show_nat_zero_iff: "show_nat n = ''0'' \<longleftrightarrow> n = 0"
proof (cases "n < 10")
  case True
  then show ?thesis using digit_zero_iff [of n] by (subst show_nat.simps) simp
next
  case False
  then have "show_nat n = show_nat (n div 10) @ [digit (n mod 10)]"
    by (subst show_nat.simps) simp
  moreover have "show_nat (n div 10) \<noteq> []" by (rule show_nat_nonempty)
  ultimately have "length (show_nat n) \<ge> 2"
    by (cases "show_nat (n div 10)") simp_all
  with False show ?thesis by auto
qed

lemma gt_zero_length: "gt_zero engine (JNum (show_nat n)) = Returns (n \<noteq> 0)"
proof -
  obtain c cs where c: "show_nat n = c # cs"
    using show_nat_nonempty [of n] by (cases "show_nat n") auto
  then have "c \<in> set ''0123456789''" using show_nat_digits [of n] by auto
  then have "c \<noteq> CHR ''N''" "c \<noteq> CHR ''-''" by auto
  then have "show_nat n \<noteq> ''NaN''" "take 1 (show_nat n) \<noteq> ''-''" using c by auto
  then show ?thesis by (simp add: show_nat_zero_iff)
qed

lemma present_nonempty_absent:
  "\<not> truthy v \<Longrightarrow> present_nonempty engine v = Returns False"
  by (simp add: present_nonempty_def)

lemma present_nonempty_array: "present_nonempty engine (JArr xs) = Returns (xs \<noteq> [])"
  by (simp add: present_nonempty_def gt_zero_length del: gt_zero.simps)

lemma missing_or_empty_True:
  assumes "\<not> truthy d \<or> get d items = Returns list \<and> (\<not> truthy list \<or> list = JArr [])"
  shows "missing_or_empty d items = Returns True"
proof (cases "truthy d")
  case False
  then show ?thesis by (simp add: missing_or_empty_def)
next
  case True
  with assms have "get d items = Returns list" "\<not> truthy list \<or> list = JArr []" by auto
  with True show ?thesis by (auto simp: missing_or_empty_def show_nat_zero_iff)
qed

section \<open>Failure payloads\<close>

text \<open>
  Claim C4. For every payload whose \<^verbatim>\<open>success\<close> field is falsy, the normalizer returns
  \<^verbatim>\<open>error.message\<close> when that field is present (truthy, as the code tests it with
  \<^verbatim>\<open>||\<close>), and the generic fallback \<^verbatim>\<open>An error occurred\<close> otherwise; the content is
  never empty. The message is read through the optional chain, so a missing \<^verbatim>\<open>error\<close>
  raises nothing.
\<close>

theorem failure_payload_message:
  assumes "get data ''success'' = Returns success" and "\<not> truthy success"
  shows "\<exists>error message.
           get data ''error'' = Returns error \<and>
           get_optional error ''message'' = Returns message \<and>
           formatBackendResponse engine data =
             Returns \<lparr>role = ''assistant'',
               content = (if truthy message then message else JStr ''An error occurred'')\<rparr> \<and>
           truthy (if truthy message then message else JStr ''An error occurred'')"
proof -
  from assms(1) have "data \<noteq> JUndefined \<and> data \<noteq> JNull"
    by (rule get_Returns_non_nullish)
  then obtain error where e: "get data ''error'' = Returns error"
    using get_non_nullish by blast
  obtain message where m: "get_optional error ''message'' = Returns message"
    using get_optional_total by blast
  show ?thesis
    using assms e m by (simp add: formatBackendResponse_def)
qed

text \<open>The scenario \<^verbatim>\<open>{success:false, error:{message:"bad query"}}\<close> yields \<^verbatim>\<open>bad query\<close>.\<close>

theorem failure_payload_message_witness:
  "get (JObj [(''success'', JBool False), (''error'', JObj [(''message'', JStr ''bad query'')])])
       ''success'' = Returns (JBool False)
   \<and> \<not> truthy (JBool False)
   \<and> formatBackendResponse example_engine
        (JObj [(''success'', JBool False), (''error'', JObj [(''message'', JStr ''bad query'')])])
       = Returns \<lparr>role = ''assistant'', content = JStr ''bad query''\<rparr>"
  using failure_payload_message
    [of "JObj [(''success'', JBool False), (''error'', JObj [(''message'', JStr ''bad query'')])]"
        "JBool False" example_engine]
  by (simp add: get_optional_def)

section \<open>Pass-through of the content\<close>

text \<open>
  Claim C6. For every successful payload whose \<^verbatim>\<open>response.type\<close> is none of the tags
  that are formatted (\<^verbatim>\<open>product_results\<close>, \<^verbatim>\<open>installation_guide\<close>, \<^verbatim>\<open>troubleshooting\<close>,
  \<^verbatim>\<open>error\<close>), the content of the message is \<^verbatim>\<open>response.content\<close> unchanged. This
  covers every unknown tag, and the tags \<^verbatim>\<open>text\<close> and \<^verbatim>\<open>out_of_scope\<close>.
\<close>

theorem pass_through:
  assumes "get data ''success'' = Returns success" and "truthy success"
    and "get data ''response'' = Returns response"
    and "get response ''type'' = Returns type"
    and "type \<notin> {JStr ''product_results'', JStr ''installation_guide'',
           JStr ''troubleshooting'', JStr ''error''}"
  shows "\<exists>c. get response ''content'' = Returns c \<and>
           formatBackendResponse engine data = Returns \<lparr>role = ''assistant'', content = c\<rparr>"
proof -
  from assms(4) have "response \<noteq> JUndefined \<and> response \<noteq> JNull"
    by (rule get_Returns_non_nullish)
  then obtain c where c: "get response ''content'' = Returns c"
    using get_non_nullish by blast
  show ?thesis
    using assms c by (simp add: formatBackendResponse_def format_by_type_def)
qed

text \<open>An unknown tag, \<^verbatim>\<open>{success:true, response:{type:"greeting", content:"Hello"}}\<close>.\<close>

theorem pass_through_witness:
  "get (JObj [(''success'', JBool True),
         (''response'', JObj [(''type'', JStr ''greeting''), (''content'', JStr ''Hello'')])])
       ''success'' = Returns (JBool True)
   \<and> truthy (JBool True)
   \<and> JStr ''greeting'' \<notin> {JStr ''product_results'', JStr ''installation_guide'',
         JStr ''troubleshooting'', JStr ''error''}
   \<and> formatBackendResponse example_engine
        (JObj [(''success'', JBool True),
          (''response'', JObj [(''type'', JStr ''greeting''), (''content'', JStr ''Hello'')])])
       = Returns \<lparr>role = ''assistant'', content = JStr ''Hello''\<rparr>"
  using pass_through
    [of "JObj [(''success'', JBool True),
          (''response'', JObj [(''type'', JStr ''greeting''), (''content'', JStr ''Hello'')])]"
        "JBool True"
        "JObj [(''type'', JStr ''greeting''), (''content'', JStr ''Hello'')]"
        "JStr ''greeting''" example_engine]
  by simp

section \<open>Fallbacks for empty listings\<close>

text \<open>
  Claim C7. For every \<^verbatim>\<open>product_results\<close> payload in which \<^verbatim>\<open>data\<close> is absent,
  \<^verbatim>\<open>data.products\<close> is absent, or \<^verbatim>\<open>data.products\<close> is the empty array, the content of
  the message is \<^verbatim>\<open>content\<close> when that is truthy and \<^verbatim>\<open>No products found\<close> otherwise.
  An absent value is \<^verbatim>\<open>undefined\<close>, which is falsy; the theorem covers every falsy value.
\<close>

theorem no_products_fallback:
  assumes "get data ''success'' = Returns success" and "truthy success"
    and "get data ''response'' = Returns response"
    and "get response ''type'' = Returns (JStr ''product_results'')"
    and "get response ''data'' = Returns d"
    and "\<not> truthy d \<or>
         get d ''products'' = Returns products \<and> (\<not> truthy products \<or> products = JArr [])"
  shows "\<exists>c. get response ''content'' = Returns c \<and>
           formatBackendResponse engine data =
             Returns \<lparr>role = ''assistant'',
               content = (if truthy c then c else JStr ''No products found'')\<rparr>"
proof -
  from assms(4) have "response \<noteq> JUndefined \<and> response \<noteq> JNull"
    by (rule get_Returns_non_nullish)
  then obtain c where c: "get response ''content'' = Returns c"
    using get_non_nullish by blast
  have "missing_or_empty d ''products'' = Returns True"
    using assms(6) by (rule missing_or_empty_True)
  then show ?thesis
    using assms(1-5) c
    by (simp add: formatBackendResponse_def format_by_type_def formatProductResults_def)
qed

text \<open>An empty product list without content gives the fallback.\<close>

theorem no_products_fallback_witness:
  "get (JObj [(''success'', JBool True),
         (''response'', JObj [(''type'', JStr ''product_results''),
            (''data'', JObj [(''products'', JArr [])])])])
       ''success'' = Returns (JBool True)
   \<and> truthy (JBool True)
   \<and> formatBackendResponse example_engine
        (JObj [(''success'', JBool True),
          (''response'', JObj [(''type'', JStr ''product_results''),
             (''data'', JObj [(''products'', JArr [])])])])
       = Returns \<lparr>role = ''assistant'', content = JStr ''No products found''\<rparr>"
  using no_products_fallback
    [of "JObj [(''success'', JBool True),
          (''response'', JObj [(''type'', JStr ''product_results''),
             (''data'', JObj [(''products'', JArr [])])])]"
        "JBool True"
        "JObj [(''type'', JStr ''product_results''), (''data'', JObj [(''products'', JArr [])])]"
        "JObj [(''products'', JArr [])]"
        "JArr []" example_engine]
  by simp

text \<open>
  Claim C8. For every \<^verbatim>\<open>installation_guide\<close> payload in which \<^verbatim>\<open>data\<close> or
  \<^verbatim>\<open>data.steps\<close> is missing, or \<^verbatim>\<open>data.steps\<close> is the empty array, the content of the
  message is \<^verbatim>\<open>content\<close> when that is truthy and \<^verbatim>\<open>No installation steps available\<close>
  otherwise.
\<close>

theorem no_steps_fallback:
  assumes "get data ''success'' = Returns success" and "truthy success"
    and "get data ''response'' = Returns response"
    and "get response ''type'' = Returns (JStr ''installation_guide'')"
    and "get response ''data'' = Returns d"
    and "\<not> truthy d \<or>
         get d ''steps'' = Returns steps \<and> (\<not> truthy steps \<or> steps = JArr [])"
  shows "\<exists>c. get response ''content'' = Returns c \<and>
           formatBackendResponse engine data =
             Returns \<lparr>role = ''assistant'',
               content = (if truthy c then c else JStr ''No installation steps available'')\<rparr>"
proof -
  from assms(4) have "response \<noteq> JUndefined \<and> response \<noteq> JNull"
    by (rule get_Returns_non_nullish)
  then obtain c where c: "get response ''content'' = Returns c"
    using get_non_nullish by blast
  have "missing_or_empty d ''steps'' = Returns True"
    using assms(6) by (rule missing_or_empty_True)
  then show ?thesis
    using assms(1-5) c
    by (simp add: formatBackendResponse_def format_by_type_def formatInstallationGuide_def)
qed

text \<open>The scenario: empty \<^verbatim>\<open>data.steps\<close>, with a content and without one.\<close>

theorem no_steps_fallback_witness:
  "get (JObj [(''success'', JBool True),
         (''response'', JObj [(''type'', JStr ''installation_guide''),
            (''content'', JStr ''See the manual''), (''data'', JObj [(''steps'', JArr [])])])])
       ''success'' = Returns (JBool True)
   \<and> truthy (JBool True)
   \<and> formatBackendResponse example_engine
        (JObj [(''success'', JBool True),
          (''response'', JObj [(''type'', JStr ''installation_guide''),
             (''content'', JStr ''See the manual''), (''data'', JObj [(''steps'', JArr [])])])])
       = Returns \<lparr>role = ''assistant'', content = JStr ''See the manual''\<rparr>"
  using no_steps_fallback
    [of "JObj [(''success'', JBool True),
          (''response'', JObj [(''type'', JStr ''installation_guide''),
             (''content'', JStr ''See the manual''), (''data'', JObj [(''steps'', JArr [])])])]"
        "JBool True"
        "JObj [(''type'', JStr ''installation_guide''),
             (''content'', JStr ''See the manual''), (''data'', JObj [(''steps'', JArr [])])]"
        "JObj [(''steps'', JArr [])]"
        "JArr []" example_engine]
  by simp


section \<open>Facts about the session client\<close>

lemma and_then_Returns:
  "and_then m f = Returns y \<longleftrightarrow> (\<exists>x. m = Returns x \<and> f x = Returns y)"
  by (cases m) auto

lemma formatBackendResponse_role:
  assumes "formatBackendResponse engine data = Returns m"
  shows "role m = ''assistant''"
  using assms
  by (auto simp: formatBackendResponse_def and_then_Returns split: if_splits)

lemma try_block_failures:
  "try_block engine st (Inl e) = (Throws e, st)"
  "\<not> ok response \<Longrightarrow>
     try_block engine st (Inr response) =
       (Throws (ErrorObject (''Backend error: '' @ show_nat (status response))), st)"
  "ok response \<Longrightarrow> json response = Inl e \<Longrightarrow> try_block engine st (Inr response) = (Throws e, st)"
  by (simp_all add: try_block_def)

lemma getAIMessage_never_throws:
  "reply (getAIMessage engine st userQuery fetched) \<noteq> Throws e"
proof -
  obtain result st' where "try_block engine st fetched = (result, st')"
    by (cases "try_block engine st fetched") auto
  then show ?thesis
    by (cases result) (simp_all add: getAIMessage_def)
qed

text \<open>
  Claim C10. For every input payload, the message \<^verbatim>\<open>formatBackendResponse\<close> produces has
  the role \<^verbatim>\<open>assistant\<close> (where it throws, it produces none). For every input,
  \<^verbatim>\<open>getAIMessage\<close> returns a message, from the normalizer or from the \<^verbatim>\<open>catch\<close> block,
  and its role is \<^verbatim>\<open>assistant\<close>.
\<close>

theorem role_is_assistant:
  "(formatBackendResponse engine data = Returns m \<longrightarrow> role m = ''assistant'') \<and>
   (\<exists>m'. reply (getAIMessage engine st userQuery fetched) = Returns m'
      \<and> role m' = ''assistant'')"
proof
  show "formatBackendResponse engine data = Returns m \<longrightarrow> role m = ''assistant''"
    by (simp add: formatBackendResponse_role)
next
  obtain result st' where t: "try_block engine st fetched = (result, st')"
    by (cases "try_block engine st fetched") auto
  show "\<exists>m'. reply (getAIMessage engine st userQuery fetched) = Returns m'
      \<and> role m' = ''assistant''"
  proof (cases result)
    case (Returns m0)
    with t have "reply (getAIMessage engine st userQuery fetched) = Returns m0"
      by (simp add: getAIMessage_def)
    moreover from t Returns have "\<exists>data. formatBackendResponse engine data = Returns m0"
      by (auto simp: try_block_def split: sum.splits if_splits outcome.splits)
    ultimately show ?thesis using formatBackendResponse_role by blast
  next
    case (Throws e)
    with t show ?thesis by (simp add: getAIMessage_def)
  qed
qed

text \<open>A reply of the backend and a failed request, both answered in the role \<^verbatim>\<open>assistant\<close>.\<close>

theorem role_is_assistant_witness:
  "formatBackendResponse example_engine
      (JObj [(''success'', JBool True),
        (''response'', JObj [(''type'', JStr ''text''), (''content'', JStr ''Hello'')])])
     = Returns \<lparr>role = ''assistant'', content = JStr ''Hello''\<rparr>
   \<and> role \<lparr>role = ''assistant'', content = JStr ''Hello''\<rparr> = ''assistant''
   \<and> (\<exists>m. reply (getAIMessage example_engine initial_state ''hi''
               (Inl (ErrorObject ''Failed to fetch''))) = Returns m
          \<and> role m = ''assistant'')"
proof -
  have 1: "formatBackendResponse example_engine
      (JObj [(''success'', JBool True),
        (''response'', JObj [(''type'', JStr ''text''), (''content'', JStr ''Hello'')])])
     = Returns \<lparr>role = ''assistant'', content = JStr ''Hello''\<rparr>"
    by (simp add: formatBackendResponse_def format_by_type_def)
  from role_is_assistant
    [where engine = example_engine
       and data = "JObj [(''success'', JBool True),
          (''response'', JObj [(''type'', JStr ''text''), (''content'', JStr ''Hello'')])]"
       and m = "\<lparr>role = ''assistant'', content = JStr ''Hello''\<rparr>"
       and st = initial_state and userQuery = "''hi''"
       and fetched = "Inl (ErrorObject ''Failed to fetch'')"]
    1
  show ?thesis by blast
qed

text \<open>
  Claim C5. In each failure mode of a turn, \<^verbatim>\<open>getAIMessage\<close> returns a message (nothing
  is raised past it) in the role \<^verbatim>\<open>assistant\<close>, whose content is the apology text around
  the failure reason: the message of the error \<^verbatim>\<open>fetch\<close> rejected with (network
  failure), \<^verbatim>\<open>Backend error:\<close> and the status (a response that is not OK), or the
  message of the error \<^verbatim>\<open>response.json()\<close> rejected with (malformed JSON).
\<close>

theorem failures_become_messages:
  "reply (getAIMessage engine st userQuery (Inl e)) =
      Returns \<lparr>role = ''assistant'',
        content = JStr (''Sorry, I encountered an error: '' @ error_message engine e
          @ ''. Please make sure the backend is running on http://localhost:5000'')\<rparr>
   \<and> (\<not> ok response \<longrightarrow>
      reply (getAIMessage engine st userQuery (Inr response)) =
        Returns \<lparr>role = ''assistant'',
          content = JStr (''Sorry, I encountered an error: ''
            @ (''Backend error: '' @ show_nat (status response))
            @ ''. Please make sure the backend is running on http://localhost:5000'')\<rparr>)
   \<and> (ok response \<and> json response = Inl e \<longrightarrow>
      reply (getAIMessage engine st userQuery (Inr response)) =
        Returns \<lparr>role = ''assistant'',
          content = JStr (''Sorry, I encountered an error: '' @ error_message engine e
            @ ''. Please make sure the backend is running on http://localhost:5000'')\<rparr>)"
  by (simp add: getAIMessage_def try_block_failures)

text \<open>
  A refused connection, a status 500 and a body that is not JSON, each from the initial
  state.
\<close>

theorem failures_become_messages_witness:
  "reply (getAIMessage example_engine initial_state ''hi''
       (Inl (ErrorObject ''Failed to fetch'')))
     = Returns \<lparr>role = ''assistant'',
         content = JStr (''Sorry, I encountered an error: Failed to fetch''
           @ ''. Please make sure the backend is running on http://localhost:5000'')\<rparr>
   \<and> \<not> ok \<lparr>ok = False, status = 500, json = Inl (ErrorObject ''Unexpected token'')\<rparr>
   \<and> reply (getAIMessage example_engine initial_state ''hi''
       (Inr \<lparr>ok = False, status = 500, json = Inl (ErrorObject ''Unexpected token'')\<rparr>))
     = Returns \<lparr>role = ''assistant'',
         content = JStr (''Sorry, I encountered an error: Backend error: 500''
           @ ''. Please make sure the backend is running on http://localhost:5000'')\<rparr>
   \<and> ok \<lparr>ok = True, status = 200, json = Inl (ErrorObject ''Unexpected token'')\<rparr>
   \<and> reply (getAIMessage example_engine initial_state ''hi''
       (Inr \<lparr>ok = True, status = 200, json = Inl (ErrorObject ''Unexpected token'')\<rparr>))
     = Returns \<lparr>role = ''assistant'',
         content = JStr (''Sorry, I encountered an error: Unexpected token''
           @ ''. Please make sure the backend is running on http://localhost:5000'')\<rparr>"
proof -
  have s: "show_nat 500 = ''500''"
    by (simp add: show_nat.simps digit_def)
  show ?thesis
    using
      failures_become_messages
        [of example_engine initial_state "''hi''" "ErrorObject ''Failed to fetch''"
            "\<lparr>ok = False, status = 500, json = Inl (ErrorObject ''Unexpected token'')\<rparr>"]
      failures_become_messages
        [of example_engine initial_state "''hi''" "ErrorObject ''Unexpected token''"
            "\<lparr>ok = True, status = 200, json = Inl (ErrorObject ''Unexpected token'')\<rparr>"]
      s
    by simp
qed

text \<open>
  Claim C9. After a call of \<^verbatim>\<open>getAIMessage\<close> that got an OK response whose parsed body
  contains a session identifier, the stored identifier is that value, whatever was stored
  before; the request of the next call carries it; and \<^verbatim>\<open>resetSession\<close> sets the stored
  identifier to \<^verbatim>\<open>null\<close>. The body contains a session identifier when its
  \<^verbatim>\<open>sessionId\<close> is truthy, as the code tests it; every non-empty string is.
\<close>

theorem session_id_stored:
  assumes "ok response" and "json response = Inr data"
    and "get data ''sessionId'' = Returns sid" and "truthy sid"
  shows "currentSessionId (state_after (getAIMessage engine st userQuery (Inr response))) = sid
    \<and> getCurrentSessionId (state_after (getAIMessage engine st userQuery (Inr response))) = sid
    \<and> sessionId (request_sent
          (getAIMessage engine' (state_after (getAIMessage engine st userQuery (Inr response)))
             userQuery' fetched')) = sid
    \<and> currentSessionId (resetSession st') = JNull"
  using assms
  by (simp add: getAIMessage_def try_block_def resetSession_def getCurrentSessionId_def
      split: prod.splits)

text \<open>
  The stored identifier \<^verbatim>\<open>old\<close> is overwritten by \<^verbatim>\<open>s-42\<close>, which the next request
  carries.
\<close>

theorem session_id_stored_witness:
  "ok \<lparr>ok = True, status = 200,
        json = Inr (JObj [(''success'', JBool False), (''sessionId'', JStr ''s-42'')])\<rparr>
   \<and> get (JObj [(''success'', JBool False), (''sessionId'', JStr ''s-42'')]) ''sessionId''
       = Returns (JStr ''s-42'')
   \<and> truthy (JStr ''s-42'')
   \<and> currentSessionId (state_after (getAIMessage example_engine
         \<lparr>currentSessionId = JStr ''old''\<rparr> ''hi''
         (Inr \<lparr>ok = True, status = 200,
            json = Inr (JObj [(''success'', JBool False), (''sessionId'', JStr ''s-42'')])\<rparr>)))
       = JStr ''s-42''
   \<and> sessionId (request_sent (getAIMessage example_engine
         (state_after (getAIMessage example_engine
            \<lparr>currentSessionId = JStr ''old''\<rparr> ''hi''
            (Inr \<lparr>ok = True, status = 200,
               json = Inr (JObj [(''success'', JBool False), (''sessionId'', JStr ''s-42'')])\<rparr>)))
         ''again'' (Inl (ErrorObject ''Failed to fetch''))))
       = JStr ''s-42''
   \<and> currentSessionId (resetSession \<lparr>currentSessionId = JStr ''s-42''\<rparr>) = JNull"
  using session_id_stored
    [of "\<lparr>ok = True, status = 200,
            json = Inr (JObj [(''success'', JBool False), (''sessionId'', JStr ''s-42'')])\<rparr>"
        "JObj [(''success'', JBool False), (''sessionId'', JStr ''s-42'')]"
        "JStr ''s-42''"
        example_engine "\<lparr>currentSessionId = JStr ''old''\<rparr>" "''hi''"
        example_engine "''again''" "Inl (ErrorObject ''Failed to fetch'')"
        "\<lparr>currentSessionId = JStr ''s-42''\<rparr>"]
  by simp

section \<open>Product listings\<close>

lemma get_object: "is_object v \<Longrightarrow> get v p = Returns (field v p)"
  by (cases v) simp_all

lemma to_string_scalar: "scalar v \<Longrightarrow> to_string v = Returns (text_of v)"
  by (cases v) simp_all

lemma interpolate_scalar:
  "is_object v \<Longrightarrow> scalar (field v p) \<Longrightarrow> interpolate v p = Returns (text_of (field v p))"
  by (simp add: interpolate_def get_object to_string_scalar)

lemma join_scalars:
  "list_all scalar xs \<Longrightarrow> join_elements '', '' xs = Returns (comma_separated (map text_of xs))"
proof (induction xs)
  case Nil
  show ?case by simp
next
  case (Cons x xs)
  then have x: "scalar x" and xs: "list_all scalar xs" by simp_all
  from x have n: "x \<noteq> JUndefined" "x \<noteq> JNull" by auto
  show ?case
  proof (cases xs)
    case Nil
    with x n show ?thesis by (simp add: to_string_scalar)
  next
    case (Cons y ys)
    with Cons.IH xs x n show ?thesis by (simp add: to_string_scalar)
  qed
qed

lemma append_compatibility_well_formed:
  assumes "well_formed_product product"
  shows "append_compatibility engine formatted product =
    Returns (formatted @
      (case field product ''compatibility'' of
         JArr (x # xs) \<Rightarrow>
           ''   Compatible with: '' @ comma_separated (map text_of (x # xs)) @ ''\<newline>''
       | _ \<Rightarrow> []))"
proof -
  from assms have obj: "is_object product"
    by (simp add: well_formed_product_def)
  from assms consider
      (absent) "field product ''compatibility'' = JUndefined"
    | (list) xs where "field product ''compatibility'' = JArr xs" "list_all scalar xs"
    by (auto simp: well_formed_product_def split: jsval.splits)
  then show ?thesis
  proof cases
    case absent
    with obj show ?thesis
      by (simp add: append_compatibility_def get_object present_nonempty_absent)
  next
    case list
    show ?thesis
    proof (cases xs)
      case Nil
      with obj list show ?thesis
        by (simp add: append_compatibility_def get_object present_nonempty_array)
    next
      case (Cons y ys)
      from list(2) have "join_elements '', '' xs = Returns (comma_separated (map text_of xs))"
        by (rule join_scalars)
      with obj list(1) Cons show ?thesis
        by (simp add: append_compatibility_def get_object present_nonempty_array)
    qed
  qed
qed

lemma product_callback_well_formed:
  assumes "well_formed_product product"
  shows "product_callback engine formatted product index =
    Returns (formatted @ numbered_entry (Suc index) product)"
proof -
  from assms have obj: "is_object product"
    and f: "scalar (field product ''name'')" "scalar (field product ''id'')"
      "scalar (field product ''price'')" "scalar (field product ''description'')"
    by (simp_all add: well_formed_product_def)
  show ?thesis
    unfolding product_callback_def
    by (simp add: interpolate_scalar [OF obj] f get_object [OF obj]
        append_compatibility_well_formed [OF assms] numbered_entry_def)
qed

lemma forEach_from_entries:
  assumes "\<And>x formatted i. x \<in> set xs \<Longrightarrow> callback formatted x i = Returns (formatted @ entry i x)"
  shows "forEach_from i xs callback formatted =
    Returns (formatted @ concat (map (\<lambda>(j, x). entry j x) (enumerate i xs)))"
  using assms
proof (induction xs arbitrary: i formatted)
  case Nil
  show ?case by simp
next
  case (Cons x xs)
  have "callback formatted x i = Returns (formatted @ entry i x)"
    by (rule Cons.prems) simp
  moreover have "forEach_from (Suc i) xs callback (formatted @ entry i x) =
      Returns ((formatted @ entry i x) @ concat (map (\<lambda>(j, x). entry j x) (enumerate (Suc i) xs)))"
    by (rule Cons.IH) (simp add: Cons.prems)
  ultimately show ?case by simp
qed

text \<open>
  Claim C3. For every well-formed \<^verbatim>\<open>product_results\<close> payload with a non-empty product
  list, the content of the message is the listing: the content text, a blank line, and
  one numbered entry per product in the order of the input, entry \<open>i\<close> showing the
  number \<open>i\<close> and the product's name, id, price and description (then its
  compatibility list, when it has one that is not empty, and its stock).
\<close>

theorem product_results_listing:
  assumes "well_formed_product_results payload"
    and "field (field payload ''response'') ''content'' = JStr text"
    and "field (field (field payload ''response'') ''data'') ''products'' = JArr products"
  shows "formatBackendResponse engine payload =
    Returns \<lparr>role = ''assistant'', content = JStr (product_listing text products)\<rparr>"
proof -
  define response where "response = field payload ''response''"
  define data where "data = field response ''data''"
  from assms have p: "is_object payload" "truthy (field payload ''success'')"
    and r: "is_object response" "field response ''type'' = JStr ''product_results''"
      "field response ''content'' = JStr text"
    and d: "is_object data" "field data ''products'' = JArr products"
    and ps: "products \<noteq> []" "list_all well_formed_product products"
    by (simp_all add: well_formed_product_results_def response_def data_def)
  from d ps have "missing_or_empty data ''products'' = Returns False"
    by (cases data) (simp_all add: missing_or_empty_def show_nat_zero_iff)
  moreover have "forEach_from 0 products (product_callback engine) (text @ ''\<newline>\<newline>'') =
      Returns ((text @ ''\<newline>\<newline>'')
        @ concat (map (\<lambda>(j, x). numbered_entry (Suc j) x) (enumerate 0 products)))"
  proof (rule forEach_from_entries)
    fix x formatted i
    assume "x \<in> set products"
    with ps(2) have "well_formed_product x" by (simp add: list_all_iff)
    then show "product_callback engine formatted x i = Returns (formatted @ numbered_entry (Suc i) x)"
      by (rule product_callback_well_formed)
  qed
  ultimately have "formatProductResults engine response =
      Returns (JStr (product_listing text products))"
    using r d
    by (simp add: formatProductResults_def get_object product_listing_def data_def [symmetric])
  with p r show ?thesis
    by (simp add: formatBackendResponse_def format_by_type_def get_object response_def [symmetric])
qed

text \<open>
  The scenario of the specification: one product, \<^verbatim>\<open>Widget\<close>. The listing contains
  \<^verbatim>\<open>1. Widget\<close>, \<^verbatim>\<open>Price: $9.99\<close> and \<^verbatim>\<open>In Stock: Yes\<close>.
\<close>

theorem product_results_listing_witness:
  "well_formed_product_results widget_payload
   \<and> formatBackendResponse example_engine widget_payload
       = Returns \<lparr>role = ''assistant'', content = JStr widget_listing\<rparr>
   \<and> sublist ''1. Widget'' widget_listing
   \<and> sublist ''Price: $9.99'' widget_listing
   \<and> sublist ''In Stock: Yes'' widget_listing"
proof -
  have wf: "well_formed_product_results widget_payload"
    by (simp add: well_formed_product_results_def well_formed_product_def widget_payload_def)
  have c: "field (field widget_payload ''response'') ''content'' = JStr ''Found 1''"
    by (simp add: widget_payload_def)
  have ps: "field (field (field widget_payload ''response'') ''data'') ''products'' =
      JArr [JObj [(''name'', JStr ''Widget''), (''id'', JStr ''W1''), (''price'', JNum ''9.99''),
                (''description'', JStr ''A widget''), (''inStock'', JBool True)]]"
    by (simp add: widget_payload_def)
  have one: "show_nat (Suc 0) = ''1''"
    by (simp add: show_nat.simps digit_def)
  have listing: "product_listing ''Found 1''
      [JObj [(''name'', JStr ''Widget''), (''id'', JStr ''W1''), (''price'', JNum ''9.99''),
                (''description'', JStr ''A widget''), (''inStock'', JBool True)]] = widget_listing"
    by (simp add: product_listing_def numbered_entry_def one widget_listing_def)
  have s1: "sublist ''1. Widget'' widget_listing"
    unfolding widget_listing_def by (simp add: sublist_Cons_right)
  have s2: "sublist ''Price: $9.99'' widget_listing"
    unfolding widget_listing_def by (simp add: sublist_Cons_right)
  have s3: "sublist ''In Stock: Yes'' widget_listing"
    unfolding widget_listing_def by (simp add: sublist_Cons_right)
  from product_results_listing [OF wf c ps, of example_engine] listing wf s1 s2 s3
  show ?thesis by simp
qed


section \<open>What each part of the normalizer returns\<close>

text \<open>
  Each lemma of this section says when a part of the normalizer returns, and what: it
  returns exactly when its input is in order, and then the text the specification
  describes.
\<close>

lemma get_Returns_iff:
  "p \<noteq> ''length'' \<Longrightarrow>
     get v p = Returns x \<longleftrightarrow> v \<noteq> JUndefined \<and> v \<noteq> JNull \<and> x = field v p"
  by (cases v) auto

lemma get_field:
  "v \<noteq> JUndefined \<Longrightarrow> v \<noteq> JNull \<Longrightarrow> p \<noteq> ''length'' \<Longrightarrow> get v p = Returns (field v p)"
  by (simp add: get_Returns_iff)

lemma truthy_non_nullish: "truthy v \<Longrightarrow> v \<noteq> JUndefined \<and> v \<noteq> JNull"
  by (cases v) simp_all

lemma to_string_Returns_iff: "to_string v = Returns s \<longleftrightarrow> printable v \<and> s = printed v"
  by (cases "to_string v") (auto simp: printable_def printed_def)

lemma printable_nullish: "printable JUndefined" "printable JNull"
  by (simp_all add: printable_def)

lemma interpolate_Returns_iff:
  "p \<noteq> ''length'' \<Longrightarrow>
     interpolate v p = Returns s \<longleftrightarrow>
       v \<noteq> JUndefined \<and> v \<noteq> JNull \<and> printable (field v p) \<and> s = printed (field v p)"
  by (auto simp: interpolate_def and_then_Returns get_Returns_iff to_string_Returns_iff)

lemma join_elements_Returns_iff:
  "join_elements '', '' xs = Returns s \<longleftrightarrow> list_all printable xs \<and> s = joined xs"
proof (induction xs arbitrary: s)
  case Nil
  show ?case by (auto simp: joined_def)
next
  case (Cons x xs)
  have element: "(if x = JUndefined \<or> x = JNull then Returns [] else to_string x) = Returns e
      \<longleftrightarrow> printable x \<and> e = (if x = JUndefined \<or> x = JNull then [] else printed x)" for e
    by (auto simp: to_string_Returns_iff printable_nullish)
  show ?case
  proof (cases xs)
    case Nil
    then show ?thesis
      by (auto simp: and_then_Returns element joined_def)
  next
    case (Cons y ys)
    with Cons.IH show ?thesis
      by (auto simp: and_then_Returns element joined_def)
  qed
qed

lemma join_Returns_iff:
  "join v '', '' = Returns s \<longleftrightarrow> (\<exists>xs. v = JArr xs \<and> list_all printable xs \<and> s = joined xs)"
  by (cases v) (auto simp: join_elements_Returns_iff)

lemma forEach_from_Returns_iff:
  assumes "\<And>acc x i t. callback acc x i = Returns t \<longleftrightarrow> good x \<and> t = acc @ entry i x"
  shows "forEach_from i xs callback acc = Returns t \<longleftrightarrow>
    list_all good xs \<and> t = acc @ concat (map (\<lambda>(j, x). entry j x) (enumerate i xs))"
proof (induction xs arbitrary: i acc t)
  case Nil
  show ?case by auto
next
  case (Cons x xs)
  show ?case
    by (auto simp: and_then_Returns assms Cons.IH)
qed

lemma forEach_Returns_iff:
  assumes "\<And>acc x i t. callback acc x i = Returns t \<longleftrightarrow> good x \<and> t = acc @ entry i x"
  shows "forEach v callback acc = Returns t \<longleftrightarrow>
    (\<exists>xs. v = JArr xs \<and> list_all good xs
       \<and> t = acc @ concat (map (\<lambda>(j, x). entry j x) (enumerate 0 xs)))"
  by (cases v) (auto simp: forEach_from_Returns_iff [of callback good entry, OF assms])

lemma map_enumerate_snd: "map (\<lambda>(j, x). f x) (enumerate i xs) = map f xs"
  by (induction xs arbitrary: i) simp_all

lemma not_shown:
  assumes "present_nonempty engine v = Returns False"
  shows "\<forall>x xs. v \<noteq> JArr (x # xs)"
  using assms by (auto simp: present_nonempty_array)

lemma no_section:
  assumes "\<forall>x xs. v \<noteq> JArr (x # xs)"
  shows "(case v of JArr (x # xs) \<Rightarrow> f x xs | _ \<Rightarrow> []) = []"
  using assms by (cases v) (auto split: list.splits)

lemma list_ok_cases:
  "list_ok engine v \<longleftrightarrow>
     present_nonempty engine v = Returns False
     \<or> (\<exists>x xs. v = JArr (x # xs) \<and> list_all printable (x # xs))"
proof (cases v)
  case (JArr ys)
  then show ?thesis
    by (cases ys) (simp_all add: list_ok_def present_nonempty_array)
qed (simp_all add: list_ok_def)

lemma joined_block_iff:
  "and_then (present_nonempty engine v) (\<lambda>shown.
       if shown then and_then (join v '', '') (\<lambda>joined. Returns (formatted @ line joined))
       else Returns formatted) = Returns t
   \<longleftrightarrow> list_ok engine v
     \<and> t = formatted @ (case v of JArr (x # xs) \<Rightarrow> line (joined (x # xs)) | _ \<Rightarrow> [])"
proof (cases "present_nonempty engine v")
  case (Returns shown)
  show ?thesis
  proof (cases shown)
    case True
    with Returns have shown: "present_nonempty engine v = Returns True" by simp
    then show ?thesis
      by (auto simp: list_ok_cases and_then_Returns join_Returns_iff present_nonempty_array
          neq_Nil_conv)
  next
    case False
    with Returns have hidden: "present_nonempty engine v = Returns False" by simp
    then show ?thesis
      using no_section [OF not_shown [OF hidden], of "\<lambda>x xs. line (joined (x # xs))"]
      by (auto simp: list_ok_cases)
  qed
next
  case (Throws e)
  then show ?thesis
    by (auto simp: list_ok_cases present_nonempty_array)
qed

lemma listed_block_iff:
  assumes "\<And>acc x i t. callback acc x i = Returns t \<longleftrightarrow> good x \<and> t = acc @ entry i x"
  shows "and_then (present_nonempty engine v) (\<lambda>shown.
       if shown then forEach v callback (formatted @ heading) else Returns formatted) = Returns t
   \<longleftrightarrow> (present_nonempty engine v = Returns False
        \<or> (\<exists>x xs. v = JArr (x # xs) \<and> list_all good (x # xs)))
     \<and> t = formatted @
         (case v of
            JArr (x # xs) \<Rightarrow> heading @ concat (map (\<lambda>(j, x). entry j x) (enumerate 0 (x # xs)))
          | _ \<Rightarrow> [])"
proof (cases "present_nonempty engine v")
  case (Returns shown)
  show ?thesis
  proof (cases shown)
    case True
    with Returns have shown: "present_nonempty engine v = Returns True" by simp
    then show ?thesis
      by (auto simp: and_then_Returns forEach_Returns_iff [of callback good entry, OF assms]
          present_nonempty_array neq_Nil_conv)
  next
    case False
    with Returns have hidden: "present_nonempty engine v = Returns False" by simp
    then show ?thesis
      using no_section [OF not_shown [OF hidden],
          of "\<lambda>x xs. heading @ concat (map (\<lambda>(j, x). entry j x) (enumerate 0 (x # xs)))"]
      by auto
  qed
next
  case (Throws e)
  then show ?thesis
    by (auto simp: present_nonempty_array)
qed

lemma bullet_callback_iff:
  "bullet_callback acc item i = Returns t \<longleftrightarrow>
     printable item \<and> t = acc @ ''      - '' @ printed item @ ''\<newline>''"
  by (auto simp: bullet_callback_def and_then_Returns to_string_Returns_iff)

lemma solution_step_callback_iff:
  "solution_step_callback acc step i = Returns t \<longleftrightarrow>
     printable step \<and> t = acc @ ''   '' @ show_nat (Suc i) @ ''. '' @ printed step @ ''\<newline>''"
  by (auto simp: solution_step_callback_def and_then_Returns to_string_Returns_iff)

text \<open>The three shapes of block, with the section each appends.\<close>

lemma joined_section_iff:
  "and_then (present_nonempty engine v) (\<lambda>shown.
       if shown then
         and_then (join v '', '') (\<lambda>joined. Returns (formatted @ label @ joined @ ''\<newline>''))
       else Returns formatted) = Returns t
   \<longleftrightarrow> list_ok engine v \<and> t = formatted @ joined_section label v"
  using joined_block_iff [of engine v formatted "\<lambda>joined. label @ joined @ ''\<newline>''" t]
  by (simp add: joined_section_def)

lemma bulleted_section_iff:
  "and_then (present_nonempty engine v) (\<lambda>shown.
       if shown then forEach v bullet_callback (formatted @ heading)
       else Returns formatted) = Returns t
   \<longleftrightarrow> list_ok engine v \<and> t = formatted @ bulleted_section heading v"
proof -
  have sec: "(case v of
        JArr (x # xs) \<Rightarrow>
          heading @ concat (map (\<lambda>(j, x). ''      - '' @ printed x @ ''\<newline>'')
            (enumerate 0 (x # xs)))
      | _ \<Rightarrow> []) = bulleted_section heading v"
    by (simp add: bulleted_section_def map_enumerate_snd split: jsval.splits list.splits)
  show ?thesis
    unfolding list_ok_cases
    by (simp only: listed_block_iff [of bullet_callback printable
          "\<lambda>i item. ''      - '' @ printed item @ ''\<newline>''", OF bullet_callback_iff] sec)
qed

lemma numbered_lines_iff:
  "and_then (present_nonempty engine v) (\<lambda>shown.
       if shown then forEach v solution_step_callback formatted
       else Returns formatted) = Returns t
   \<longleftrightarrow> list_ok engine v \<and> t = formatted @ numbered_lines v"
proof -
  have sec: "(case v of
        JArr (x # xs) \<Rightarrow>
          [] @ concat (map (\<lambda>(j, x). ''   '' @ show_nat (Suc j) @ ''. '' @ printed x @ ''\<newline>'')
            (enumerate 0 (x # xs)))
      | _ \<Rightarrow> []) = numbered_lines v"
    by (simp add: numbered_lines_def split: jsval.splits list.splits)
  have "and_then (present_nonempty engine v) (\<lambda>shown.
       if shown then forEach v solution_step_callback (formatted @ [])
       else Returns formatted) = Returns t
   \<longleftrightarrow> list_ok engine v \<and> t = formatted @ numbered_lines v"
    unfolding list_ok_cases
    by (simp only: listed_block_iff [of solution_step_callback printable
          "\<lambda>i step. ''   '' @ show_nat (Suc i) @ ''. '' @ printed step @ ''\<newline>''",
          OF solution_step_callback_iff] sec)
  then show ?thesis by (simp cong: if_cong)
qed

lemma append_compatibility_iff:
  "append_compatibility engine formatted product = Returns t \<longleftrightarrow>
     product \<noteq> JUndefined \<and> product \<noteq> JNull
     \<and> list_ok engine (field product ''compatibility'')
     \<and> t = formatted @ joined_section ''   Compatible with: '' (field product ''compatibility'')"
proof (cases "product = JUndefined \<or> product = JNull")
  case True
  then show ?thesis by (auto simp: append_compatibility_def)
next
  case False
  then have "get product ''compatibility'' = Returns (field product ''compatibility'')"
    by (simp add: get_field)
  with False show ?thesis
    using joined_section_iff [of engine "field product ''compatibility''" formatted "''   Compatible with: ''" t]
    by (simp add: append_compatibility_def cong: if_cong)
qed

lemma append_tools_iff:
  "append_tools engine formatted step = Returns t \<longleftrightarrow>
     step \<noteq> JUndefined \<and> step \<noteq> JNull
     \<and> list_ok engine (field step ''tools'')
     \<and> t = formatted @ joined_section (''   '' @ wrench @ '' Tools needed: '') (field step ''tools'')"
proof (cases "step = JUndefined \<or> step = JNull")
  case True
  then show ?thesis by (auto simp: append_tools_def)
next
  case False
  then have "get step ''tools'' = Returns (field step ''tools'')"
    by (simp add: get_field)
  with False show ?thesis
    using joined_section_iff [of engine "field step ''tools''" formatted "''   '' @ wrench @ '' Tools needed: ''" t]
    by (simp add: append_tools_def cong: if_cong)
qed

lemma append_recommendedParts_iff:
  "append_recommendedParts engine formatted solution = Returns t \<longleftrightarrow>
     solution \<noteq> JUndefined \<and> solution \<noteq> JNull
     \<and> list_ok engine (field solution ''recommendedParts'')
     \<and> t = formatted @ joined_section (''   '' @ hammer_and_wrench @ '' Recommended Parts: '') (field solution ''recommendedParts'')"
proof (cases "solution = JUndefined \<or> solution = JNull")
  case True
  then show ?thesis by (auto simp: append_recommendedParts_def)
next
  case False
  then have "get solution ''recommendedParts'' = Returns (field solution ''recommendedParts'')"
    by (simp add: get_field)
  with False show ?thesis
    using joined_section_iff [of engine "field solution ''recommendedParts''" formatted "''   '' @ hammer_and_wrench @ '' Recommended Parts: ''" t]
    by (simp add: append_recommendedParts_def cong: if_cong)
qed

lemma append_tips_iff:
  "append_tips engine formatted step = Returns t \<longleftrightarrow>
     step \<noteq> JUndefined \<and> step \<noteq> JNull
     \<and> list_ok engine (field step ''tips'')
     \<and> t = formatted @ bulleted_section (''   '' @ light_bulb @ '' Tips:\<newline>'') (field step ''tips'')"
proof (cases "step = JUndefined \<or> step = JNull")
  case True
  then show ?thesis by (auto simp: append_tips_def)
next
  case False
  then have "get step ''tips'' = Returns (field step ''tips'')"
    by (simp add: get_field)
  with False show ?thesis
    using bulleted_section_iff [of engine "field step ''tips''" formatted "''   '' @ light_bulb @ '' Tips:\<newline>''" t]
    by (simp add: append_tips_def cong: if_cong)
qed

lemma append_warnings_iff:
  "append_warnings engine formatted step = Returns t \<longleftrightarrow>
     step \<noteq> JUndefined \<and> step \<noteq> JNull
     \<and> list_ok engine (field step ''warnings'')
     \<and> t = formatted @ bulleted_section (''   '' @ warning_sign @ '' Warnings:\<newline>'') (field step ''warnings'')"
proof (cases "step = JUndefined \<or> step = JNull")
  case True
  then show ?thesis by (auto simp: append_warnings_def)
next
  case False
  then have "get step ''warnings'' = Returns (field step ''warnings'')"
    by (simp add: get_field)
  with False show ?thesis
    using bulleted_section_iff [of engine "field step ''warnings''" formatted "''   '' @ warning_sign @ '' Warnings:\<newline>''" t]
    by (simp add: append_warnings_def cong: if_cong)
qed

lemma append_solution_steps_iff:
  "append_solution_steps engine formatted solution = Returns t \<longleftrightarrow>
     solution \<noteq> JUndefined \<and> solution \<noteq> JNull
     \<and> list_ok engine (field solution ''steps'')
     \<and> t = formatted @ numbered_lines (field solution ''steps'')"
proof (cases "solution = JUndefined \<or> solution = JNull")
  case True
  then show ?thesis by (auto simp: append_solution_steps_def)
next
  case False
  then have "get solution ''steps'' = Returns (field solution ''steps'')"
    by (simp add: get_field)
  with False show ?thesis
    using numbered_lines_iff [of engine "field solution ''steps''" formatted t]
    by (simp add: append_solution_steps_def cong: if_cong)
qed

text \<open>The callbacks: each returns exactly for an entry in order, and appends its block.\<close>

lemma product_callback_iff:
  "product_callback engine formatted product index = Returns t \<longleftrightarrow>
     product_ok engine product \<and> t = formatted @ product_text (Suc index) product"
  by (auto simp: product_callback_def and_then_Returns interpolate_Returns_iff
      append_compatibility_iff get_Returns_iff product_ok_def product_text_def)

lemma step_callback_iff:
  "step_callback engine formatted step index = Returns t \<longleftrightarrow>
     step_ok engine step \<and> t = formatted @ step_text (Suc index) step"
  by (auto simp: step_callback_def and_then_Returns interpolate_Returns_iff
      append_tools_iff append_tips_iff append_warnings_iff step_ok_def step_text_def)

lemma cause_callback_iff:
  "cause_callback formatted cause index = Returns t \<longleftrightarrow>
     cause_ok cause \<and> t = formatted @ cause_text (Suc index) cause"
  by (auto simp: cause_callback_def and_then_Returns interpolate_Returns_iff
      cause_ok_def cause_text_def)

lemma solution_callback_iff:
  "solution_callback engine formatted solution index = Returns t \<longleftrightarrow>
     solution_ok engine solution \<and> t = formatted @ solution_text (Suc index) solution"
  by (auto simp: solution_callback_def and_then_Returns interpolate_Returns_iff
      append_solution_steps_iff append_recommendedParts_iff solution_ok_def solution_text_def)

text \<open>The guards of the listings and of the troubleshooting sections.\<close>

lemma missing_or_empty_nothing_listed:
  assumes "items \<noteq> ''length''"
  shows "missing_or_empty data items = Returns (nothing_listed data items)"
proof (cases "truthy data")
  case False
  then show ?thesis by (simp add: missing_or_empty_def nothing_listed_def)
next
  case True
  then have g: "get data items = Returns (field data items)"
    using assms truthy_non_nullish get_field by blast
  show ?thesis
  proof (cases "truthy (field data items)")
    case False
    with True g show ?thesis by (simp add: missing_or_empty_def nothing_listed_def)
  next
    case present: True
    then obtain n where "get (field data items) ''length'' = Returns n"
      using truthy_non_nullish get_non_nullish by blast
    with True present g show ?thesis
      by (auto simp: missing_or_empty_def nothing_listed_def)
  qed
qed

lemma field_falsy: "\<not> truthy v \<Longrightarrow> field v p = JUndefined"
  by (cases v) simp_all

lemma entries_text_enumerate:
  "concat (map (\<lambda>(j, x). entry (Suc j) x) (enumerate 0 xs)) = entries_text entry xs"
  by (simp add: entries_text_def)

lemma forEach_entries_iff:
  assumes "\<And>acc x i t. callback acc x i = Returns t \<longleftrightarrow> good x \<and> t = acc @ entry (Suc i) x"
  shows "forEach v callback acc = Returns t \<longleftrightarrow>
    entries_ok good v
    \<and> t = acc @ (case v of JArr xs \<Rightarrow> entries_text entry xs | _ \<Rightarrow> [])"
  using forEach_Returns_iff [of callback good "\<lambda>i. entry (Suc i)" v acc t, OF assms]
  by (cases v) (auto simp: entries_ok_def entries_text_def)

lemma listed_section_iff:
  assumes "\<And>acc x i t. callback acc x i = Returns t \<longleftrightarrow> good x \<and> t = acc @ entry (Suc i) x"
    and "items \<noteq> ''length''"
  shows "and_then (has_items engine data items) (\<lambda>shown.
       if shown then
         and_then (get data items) (\<lambda>list. forEach list callback (formatted @ heading))
       else Returns formatted) = Returns t
   \<longleftrightarrow> section_ok engine good data items
     \<and> t = formatted @ listed_section heading entry (field data items)"
proof (cases "truthy data")
  case False
  then show ?thesis
    by (auto simp: has_items_def section_ok_def field_falsy listed_section_def)
next
  case True
  then have g: "get data items = Returns (field data items)"
    using assms(2) truthy_non_nullish get_field by blast
  have h: "has_items engine data items = present_nonempty engine (field data items)"
    using True g by (simp add: has_items_def)
  have sec: "(case field data items of
        JArr (x # xs) \<Rightarrow>
          heading @ concat (map (\<lambda>(j, x). entry (Suc j) x) (enumerate 0 (x # xs)))
      | _ \<Rightarrow> []) = listed_section heading entry (field data items)"
    by (simp add: listed_section_def entries_text_def split: jsval.splits list.splits)
  have ok: "(present_nonempty engine (field data items) = Returns False
        \<or> (\<exists>x xs. field data items = JArr (x # xs) \<and> list_all good (x # xs)))
      \<longleftrightarrow> section_ok engine good data items"
  proof (cases "field data items")
    case (JArr ys)
    then show ?thesis
      by (cases ys) (simp_all add: section_ok_def entries_ok_def h present_nonempty_array)
  qed (simp_all add: section_ok_def entries_ok_def h)
  have "and_then (present_nonempty engine (field data items)) (\<lambda>shown.
       if shown then forEach (field data items) callback (formatted @ heading)
       else Returns formatted) = Returns t
   \<longleftrightarrow> section_ok engine good data items
     \<and> t = formatted @ listed_section heading entry (field data items)"
    by (simp only: listed_block_iff [of callback good "\<lambda>i. entry (Suc i)", OF assms(1)] sec ok)
  then show ?thesis
    by (simp add: h g cong: if_cong)
qed

lemma append_possibleCauses_iff:
  "append_possibleCauses engine formatted data = Returns t \<longleftrightarrow>
     section_ok engine cause_ok data ''possibleCauses''
     \<and> t = formatted @ listed_section ''**Possible Causes:**\<newline>\<newline>'' cause_text
           (field data ''possibleCauses'')"
  unfolding append_possibleCauses_def
  by (rule listed_section_iff [of cause_callback cause_ok cause_text, OF cause_callback_iff])
     simp

lemma append_suggestedSolutions_iff:
  "append_suggestedSolutions engine formatted data = Returns t \<longleftrightarrow>
     section_ok engine (solution_ok engine) data ''suggestedSolutions''
     \<and> t = formatted @ listed_section ''**Suggested Solutions:**\<newline>\<newline>'' solution_text
           (field data ''suggestedSolutions'')"
  unfolding append_suggestedSolutions_def
  by (rule listed_section_iff [of "solution_callback engine" "solution_ok engine" solution_text,
        OF solution_callback_iff])
     simp

text \<open>The three formatters.\<close>

lemma formatProductResults_iff:
  assumes "response \<noteq> JUndefined" and "response \<noteq> JNull"
  shows "formatProductResults engine response = Returns c \<longleftrightarrow>
    (if nothing_listed (field response ''data'') ''products''
     then c = (if truthy (field response ''content'') then field response ''content''
               else JStr ''No products found'')
     else printable (field response ''content'')
       \<and> entries_ok (product_ok engine) (field (field response ''data'') ''products'')
       \<and> c = JStr (products_text response))"
proof -
  note g = get_field [OF assms]
  note m = missing_or_empty_nothing_listed [of "''products''" "field response ''data''"]
  show ?thesis
  proof (cases "nothing_listed (field response ''data'') ''products''")
    case True
    then show ?thesis
      by (auto simp: formatProductResults_def g m)
  next
    case False
    then have "truthy (field response ''data'')"
      by (simp add: nothing_listed_def)
    then have "get (field response ''data'') ''products'' =
        Returns (field (field response ''data'') ''products'')"
      using truthy_non_nullish get_field by simp
    with False show ?thesis
      by (auto simp: formatProductResults_def g m and_then_Returns to_string_Returns_iff
          forEach_entries_iff [of "product_callback engine" "product_ok engine" product_text,
            OF product_callback_iff]
          products_text_def)
  qed
qed

lemma formatInstallationGuide_iff:
  assumes "response \<noteq> JUndefined" and "response \<noteq> JNull"
  shows "formatInstallationGuide engine response = Returns c \<longleftrightarrow>
    (if nothing_listed (field response ''data'') ''steps''
     then c = (if truthy (field response ''content'') then field response ''content''
               else JStr ''No installation steps available'')
     else printable (field response ''content'')
       \<and> printable (field (field response ''data'') ''estimatedTime'')
       \<and> printable (field (field response ''data'') ''difficulty'')
       \<and> entries_ok (step_ok engine) (field (field response ''data'') ''steps'')
       \<and> c = JStr (guide_text response))"
proof -
  note g = get_field [OF assms]
  note m = missing_or_empty_nothing_listed [of "''steps''" "field response ''data''"]
  show ?thesis
  proof (cases "nothing_listed (field response ''data'') ''steps''")
    case True
    then show ?thesis
      by (auto simp: formatInstallationGuide_def g m)
  next
    case False
    then have "truthy (field response ''data'')"
      by (simp add: nothing_listed_def)
    then have d: "field response ''data'' \<noteq> JUndefined" "field response ''data'' \<noteq> JNull"
      using truthy_non_nullish by auto
    with False show ?thesis
      by (auto simp: formatInstallationGuide_def g m and_then_Returns to_string_Returns_iff
          interpolate_Returns_iff get_field [OF d]
          forEach_entries_iff [of "step_callback engine" "step_ok engine" step_text,
            OF step_callback_iff]
          guide_text_def)
  qed
qed

lemma formatTroubleshooting_iff:
  assumes "response \<noteq> JUndefined" and "response \<noteq> JNull"
  shows "formatTroubleshooting engine response = Returns c \<longleftrightarrow>
    troubleshooting_ok engine response \<and> c = JStr (troubleshooting_text response)"
  by (auto simp: formatTroubleshooting_def get_field [OF assms] and_then_Returns
      to_string_Returns_iff append_possibleCauses_iff append_suggestedSolutions_iff
      troubleshooting_ok_def troubleshooting_text_def)



lemma is_object_non_nullish: "is_object v \<Longrightarrow> v \<noteq> JUndefined \<and> v \<noteq> JNull"
  by (cases v) simp_all




lemma formatBackendResponse_success:
  assumes "payload \<noteq> JUndefined" and "payload \<noteq> JNull" and "truthy (field payload ''success'')"
    and "field payload ''response'' \<noteq> JUndefined" and "field payload ''response'' \<noteq> JNull"
  shows "formatBackendResponse engine payload = Returns m \<longleftrightarrow>
    (\<exists>c. format_by_type engine (field (field payload ''response'') ''type'')
            (field payload ''response'') = Returns c
       \<and> m = \<lparr>role = ''assistant'', content = c\<rparr>)"
  using assms(3)
  by (auto simp: formatBackendResponse_def get_field [OF assms(1,2)] get_field [OF assms(4,5)]
      and_then_Returns)

section \<open>Absent optional fields\<close>

text \<open>
  Claim C2, as stated, fails for the installation guide's \<^verbatim>\<open>estimatedTime\<close> and
  \<^verbatim>\<open>difficulty\<close>: the guide interpolates both without a guard, so a guide that has
  steps but neither of the two fields shows the text \<^verbatim>\<open>undefined\<close> twice.
\<close>

theorem absent_estimatedTime_counterexample:
  "formatBackendResponse example_engine
     (JObj [(''success'', JBool True),
        (''response'', JObj [(''type'', JStr ''installation_guide''),
           (''content'', JStr ''Guide''),
           (''data'', JObj [(''steps'', JArr
              [JObj [(''step'', JNum ''1''), (''instruction'', JStr ''Unplug'')]])])])])
   = Returns \<lparr>role = ''assistant'',
       content = JStr (''Guide\<newline>\<newline>''
         @ stopwatch @ '' Estimated Time: undefined minutes\<newline>''
         @ bar_chart @ '' Difficulty: undefined\<newline>\<newline>''
         @ ''**Step 1: Unplug**\<newline>\<newline>'')\<rparr>"
  by (simp add: formatBackendResponse_def format_by_type_def formatInstallationGuide_def
      missing_or_empty_def show_nat_zero_iff interpolate_def step_callback_def
      append_tools_def append_tips_def append_warnings_def present_nonempty_def)

text \<open>
  Claim C2, amended to the optional lists \<^verbatim>\<open>compatibility\<close>, \<^verbatim>\<open>tools\<close>, \<^verbatim>\<open>tips\<close>,
  \<^verbatim>\<open>warnings\<close> and \<^verbatim>\<open>recommendedParts\<close>. For every displayable payload, that is every
  payload for which the normalizer returns, the output of a product listing, of an
  installation guide and of a troubleshooting reply is the text the specification
  describes: one block per entry, in which an optional list has a section only when it
  is an array that is not empty. An absent list is in order, so it raises nothing, and
  its section is the empty text: the output has no section and no text \<^verbatim>\<open>undefined\<close> for
  it. The guide's \<^verbatim>\<open>estimatedTime\<close> and \<^verbatim>\<open>difficulty\<close> are printed as given.
\<close>

theorem absent_lists_leave_no_trace:
  assumes "displayable_payload engine payload" and "truthy (field payload ''success'')"
    and "field payload ''response'' = response"
  shows "(field response ''type'' = JStr ''product_results''
        \<and> \<not> nothing_listed (field response ''data'') ''products'' \<longrightarrow>
      formatBackendResponse engine payload =
        Returns \<lparr>role = ''assistant'', content = JStr (products_text response)\<rparr>)
    \<and> (field response ''type'' = JStr ''installation_guide''
        \<and> \<not> nothing_listed (field response ''data'') ''steps'' \<longrightarrow>
      formatBackendResponse engine payload =
        Returns \<lparr>role = ''assistant'', content = JStr (guide_text response)\<rparr>)
    \<and> (field response ''type'' = JStr ''troubleshooting'' \<longrightarrow>
      formatBackendResponse engine payload =
        Returns \<lparr>role = ''assistant'', content = JStr (troubleshooting_text response)\<rparr>)
    \<and> list_ok engine JUndefined
    \<and> joined_section label JUndefined = []
    \<and> bulleted_section heading JUndefined = []"
proof -
  from assms have p: "payload \<noteq> JUndefined" "payload \<noteq> JNull"
    and d: "displayable_response engine response"
    by (auto simp: displayable_payload_def)
  from d have "is_object response" by (simp add: displayable_response_def)
  then have r: "response \<noteq> JUndefined" "response \<noteq> JNull"
    using is_object_non_nullish by auto
  note normal = formatBackendResponse_success [OF p assms(2), unfolded assms(3), OF r]
  have "formatBackendResponse engine payload =
      Returns \<lparr>role = ''assistant'', content = JStr (products_text response)\<rparr>"
    if "field response ''type'' = JStr ''product_results''"
      and "\<not> nothing_listed (field response ''data'') ''products''"
    using that d
    by (simp add: normal format_by_type_def formatProductResults_iff [OF r]
        displayable_response_def products_ok_def)
  moreover have "formatBackendResponse engine payload =
      Returns \<lparr>role = ''assistant'', content = JStr (guide_text response)\<rparr>"
    if "field response ''type'' = JStr ''installation_guide''"
      and "\<not> nothing_listed (field response ''data'') ''steps''"
    using that d
    by (simp add: normal format_by_type_def formatInstallationGuide_iff [OF r]
        displayable_response_def guide_ok_def)
  moreover have "formatBackendResponse engine payload =
      Returns \<lparr>role = ''assistant'', content = JStr (troubleshooting_text response)\<rparr>"
    if "field response ''type'' = JStr ''troubleshooting''"
    using that d
    by (simp add: normal format_by_type_def formatTroubleshooting_iff [OF r]
        displayable_response_def)
  moreover have "list_ok engine JUndefined"
    by (simp add: list_ok_def present_nonempty_def)
  ultimately show ?thesis
    by (simp add: joined_section_def bulleted_section_def)
qed

text \<open>
  The guide \<open>guide_payload\<close>: its first step has none of the optional lists and gets
  only its heading line; its second step has tools and a warning, and no tips.
\<close>

theorem absent_lists_leave_no_trace_witness:
  "displayable_payload example_engine guide_payload
   \<and> truthy (field guide_payload ''success'')
   \<and> field (field guide_payload ''response'') ''type'' = JStr ''installation_guide''
   \<and> \<not> nothing_listed (field (field guide_payload ''response'') ''data'') ''steps''
   \<and> formatBackendResponse example_engine guide_payload =
       Returns \<lparr>role = ''assistant'', content = JStr guide_listing\<rparr>"
proof -
  have one: "show_nat (Suc 0) = ''1''" and two: "show_nat 2 = ''2''"
    by (simp_all add: show_nat.simps digit_def)
  have ok: "displayable_payload example_engine guide_payload"
    by (simp add: guide_payload_def displayable_payload_def displayable_response_def
        guide_ok_def nothing_listed_def entries_ok_def step_ok_def list_ok_def
        present_nonempty_def printable_def string_or_falsy_def two show_nat_zero_iff)
  have success: "truthy (field guide_payload ''success'')"
    by (simp add: guide_payload_def)
  have type: "field (field guide_payload ''response'') ''type'' = JStr ''installation_guide''"
    by (simp add: guide_payload_def)
  have listed: "\<not> nothing_listed (field (field guide_payload ''response'') ''data'') ''steps''"
    by (simp add: guide_payload_def nothing_listed_def show_nat_zero_iff)
  have rendered: "guide_text (field guide_payload ''response'') = guide_listing"
    by (simp add: guide_payload_def guide_text_def guide_listing_def entries_text_def
        step_text_def printed_def joined_section_def bulleted_section_def joined_def)
  from absent_lists_leave_no_trace [OF ok success refl] type listed rendered ok success
  show ?thesis by simp
qed

section \<open>Displayable payloads\<close>




end
